theory Spec2Isabelle
  imports Main
begin

section \<open>JavaScript values used by the worker\<close>

text \<open>
  The worker (\<^verbatim>\<open>src/worker.js\<close>) is typed here after its JSDoc annotations and the Telegram
  Bot API: a JavaScript string is a \<^typ>\<open>string\<close> holding the bytes of its UTF-8 text, a
  number that carries an identifier or a byte count is an \<^typ>\<open>int\<close> (the integers a
  double holds exactly), and a field that may be \<^verbatim>\<open>undefined\<close> is an \<^typ>\<open>'a option\<close>.
  An exception is a value of \<open>js_error\<close>; a function that can throw returns
  \<open>js_error + 'a\<close>.
\<close>

datatype js_error = NetworkError | SyntaxError | TypeError

text \<open>Truthiness, as \<^verbatim>\<open>!x\<close> and \<^verbatim>\<open>x || y\<close> test it: \<^verbatim>\<open>undefined\<close>, the empty string and
  the number zero are falsy.\<close>

fun truthy_str :: "string option \<Rightarrow> bool" where
  "truthy_str None = False"
| "truthy_str (Some s) = (s \<noteq> [])"

fun truthy_num :: "int option \<Rightarrow> bool" where
  "truthy_num None = False"
| "truthy_num (Some n) = (n \<noteq> 0)"

text \<open>\<^verbatim>\<open>s.startsWith(p)\<close>.\<close>

definition startsWith :: "string \<Rightarrow> string \<Rightarrow> bool" where
  "startsWith s p = (take (length p) s = p)"

text \<open>\<^verbatim>\<open>s.split(c)\<close> for a one-character separator: the pieces between the separators,
  always at least one piece.\<close>

fun split :: "char \<Rightarrow> string \<Rightarrow> string list" where
  "split c [] = [[]]"
| "split c (x # xs) =
     (if x = c then [] # split c xs
      else (case split c xs of
              [] \<Rightarrow> [[x]]
            | p # ps \<Rightarrow> (x # p) # ps))"

text \<open>\<^verbatim>\<open>xs[i]\<close>: \<^verbatim>\<open>undefined\<close> out of range, also at \<open>-1\<close>.\<close>

definition at :: "'a list \<Rightarrow> int \<Rightarrow> 'a option" where
  "at xs i = (if 0 \<le> i \<and> i < int (length xs) then Some (xs ! nat i) else None)"

text \<open>Template-literal interpolation \<^verbatim>\<open>${x}\<close>: the decimal digits of an integer, the
  text \<^verbatim>\<open>undefined\<close> for a missing string.\<close>

definition digit :: "nat \<Rightarrow> char" where
  "digit d = ''0123456789'' ! (d mod 10)"

fun show_nat :: "nat \<Rightarrow> string" where
  "show_nat n = (if n < 10 then [digit n] else show_nat (n div 10) @ [digit (n mod 10)])"

declare show_nat.simps [simp del]

definition show_int :: "int \<Rightarrow> string" where
  "show_int i = (if i < 0 then CHR ''-'' # show_nat (nat (- i)) else show_nat (nat i))"

fun show_str :: "string option \<Rightarrow> string" where
  "show_str None = ''undefined''"
| "show_str (Some s) = s"

text \<open>\<^verbatim>\<open>(size / 1024 / 1024).toFixed(2)\<close>. Dividing an integer by a power of two is exact
  in a double, so the value printed is the integer \<open>q\<close> nearest to \<open>100 * size / 2^20\<close>
  (the larger one on a tie), written with two decimals, and the sign is put in front
  of the result for the absolute value. An \<^verbatim>\<open>undefined\<close> size divides to
  \<^verbatim>\<open>NaN\<close>, printed as such.\<close>

definition toFixed2_nat :: "nat \<Rightarrow> string" where
  "toFixed2_nat n =
     (let q = (100 * n + 524288) div 1048576
      in show_nat (q div 100) @ ''.'' @ [digit (q mod 100 div 10), digit (q mod 10)])"

fun sizeMB :: "int option \<Rightarrow> string" where
  "sizeMB None = ''NaN''"
| "sizeMB (Some n) =
     (if n < 0 then CHR ''-'' # toFixed2_nat (nat (- n)) else toFixed2_nat (nat n))"

text \<open>\<^verbatim>\<open>encodeURIComponent\<close>: every byte of the UTF-8 text is written \<open>%XX\<close> in upper-case
  hexadecimal, except letters, digits and \<^verbatim>\<open>- _ . ! ~ * ' ( )\<close>.\<close>

definition hexdigit :: "nat \<Rightarrow> char" where
  "hexdigit d = ''0123456789ABCDEF'' ! (d mod 16)"

definition alnum :: "char \<Rightarrow> bool" where
  "alnum c = (let n = (of_char c :: nat)
              in (48 \<le> n \<and> n \<le> 57) \<or> (65 \<le> n \<and> n \<le> 90) \<or> (97 \<le> n \<and> n \<le> 122))"

definition unreserved :: "char \<Rightarrow> bool" where
  "unreserved c = (alnum c \<or> c \<in> set (''-_.!~*()'' @ [CHR 0x27]))"

definition percent :: "char \<Rightarrow> string" where
  "percent c = (let n = (of_char c :: nat) in [CHR ''%'', hexdigit (n div 16), hexdigit (n mod 16)])"

definition encodeURIComponent :: "string \<Rightarrow> string" where
  "encodeURIComponent s = concat (map (\<lambda>c. if unreserved c then [c] else percent c) s)"

section \<open>Telegram updates and stored metadata\<close>

text \<open>An attachment of a message (\<^verbatim>\<open>Document\<close>, \<^verbatim>\<open>Video\<close>, \<^verbatim>\<open>Audio\<close> or one
  \<^verbatim>\<open>PhotoSize\<close>): the three fields \<^verbatim>\<open>extractFileInfo\<close> reads.\<close>

record tg_file =
  file_id :: string
  file_name :: "string option"
  file_size :: "int option"

text \<open>The fields of \<^verbatim>\<open>update.message\<close> that the worker reads; \<open>chat_id\<close> is
  \<^verbatim>\<open>message.chat?.id\<close> and \<open>from_id\<close> is \<^verbatim>\<open>message.from?.id\<close>.\<close>

record tg_message =
  chat_id :: "int option"
  from_id :: "int option"
  message_text :: "string option"
  document :: "tg_file option"
  video :: "tg_file option"
  audio :: "tg_file option"
  photo :: "tg_file list option"

text \<open>The object \<^verbatim>\<open>{fileId, fileName, fileSize}\<close>: what \<^verbatim>\<open>extractFileInfo\<close> returns and
  what a Link Record holds.\<close>

record file_info =
  fileId :: "string option"
  fileName :: "string option"
  fileSize :: "int option"

definition MAX_FILE_SIZE :: int where
  "MAX_FILE_SIZE = 20 * 1024 * 1024"

text \<open>The attachment chosen by
  \<^verbatim>\<open>message.document || message.video || message.audio || message.photo?.[message.photo.length - 1]\<close>.\<close>

definition chosen_file :: "tg_message \<Rightarrow> tg_file option" where
  "chosen_file m =
     (case document m of Some d \<Rightarrow> Some d
      | None \<Rightarrow> (case video m of Some v \<Rightarrow> Some v
      | None \<Rightarrow> (case audio m of Some a \<Rightarrow> Some a
      | None \<Rightarrow> (case photo m of None \<Rightarrow> None
      | Some ps \<Rightarrow> at ps (int (length ps) - 1)))))"

definition default_name :: "tg_message \<Rightarrow> string" where
  "default_name m =
     (if video m \<noteq> None then ''video.mp4''
      else if audio m \<noteq> None then ''audio.mp3''
      else ''photo.jpg'')"

definition extractFileInfo :: "tg_message \<Rightarrow> file_info" where
  "extractFileInfo m =
     (case chosen_file m of
        None \<Rightarrow> \<lparr>fileId = None, fileName = None, fileSize = None\<rparr>
      | Some file \<Rightarrow>
          \<lparr>fileId = Some (file_id file),
           fileName = (if truthy_str (file_name file) then file_name file
                       else Some (default_name m)),
           fileSize = file_size file\<rparr>)"

text \<open>\<^verbatim>\<open>fileSize > MAX_FILE_SIZE\<close>: false when the size is \<^verbatim>\<open>undefined\<close>.\<close>

fun exceeds :: "int option \<Rightarrow> int \<Rightarrow> bool" where
  "exceeds None lim = False"
| "exceeds (Some n) lim = (n > lim)"

text \<open>\<^verbatim>\<open>JSON.stringify({ fileId, fileName, fileSize })\<close>. A string is quoted with the
  escapes of \<^verbatim>\<open>QuoteJSONString\<close>; an integer is written in decimal; a property whose
  value is \<^verbatim>\<open>undefined\<close> is left out.\<close>

definition hexlower :: "nat \<Rightarrow> char" where
  "hexlower d = ''0123456789abcdef'' ! (d mod 16)"

definition json_char :: "char \<Rightarrow> string" where
  "json_char c =
     (let n = (of_char c :: nat) in
      if n = 8 then [CHR 0x5C, CHR ''b'']
      else if n = 9 then [CHR 0x5C, CHR ''t'']
      else if n = 10 then [CHR 0x5C, CHR ''n'']
      else if n = 12 then [CHR 0x5C, CHR ''f'']
      else if n = 13 then [CHR 0x5C, CHR ''r'']
      else if n = 34 then [CHR 0x5C, CHR 0x22]
      else if n = 92 then [CHR 0x5C, CHR 0x5C]
      else if n < 32 then [CHR 0x5C, CHR ''u'', CHR ''0'', CHR ''0'', hexlower (n div 16), hexlower (n mod 16)]
      else [c])"

definition json_string :: "string \<Rightarrow> string" where
  "json_string s = [CHR 0x22] @ concat (map json_char s) @ [CHR 0x22]"

definition json_property :: "string \<Rightarrow> string option \<Rightarrow> string list" where
  "json_property name v =
     (case v of None \<Rightarrow> [] | Some t \<Rightarrow> [json_string name @ '':'' @ t])"

fun join :: "string \<Rightarrow> string list \<Rightarrow> string" where
  "join sep [] = []"
| "join sep [x] = x"
| "join sep (x # y # ys) = x @ sep @ join sep (y # ys)"

definition JSON_stringify :: "file_info \<Rightarrow> string" where
  "JSON_stringify o' =
     ''{'' @ join '','' (json_property ''fileId'' (map_option json_string (fileId o'))
                      @ json_property ''fileName'' (map_option json_string (fileName o'))
                      @ json_property ''fileSize'' (map_option show_int (fileSize o'))) @ ''}''"

section \<open>The platform: configuration, network, Link Store\<close>

text \<open>A \<^verbatim>\<open>Response\<close>; header names are kept in lower case, as a \<^verbatim>\<open>Headers\<close> object
  compares them.\<close>

record http_response =
  status :: nat
  statusText :: string
  headers :: "(string \<times> string) list"
  body :: string

text \<open>\<^verbatim>\<open>new Response(text, { status })\<close>.\<close>

definition Response :: "string \<Rightarrow> nat \<Rightarrow> http_response" where
  "Response txt st =
     \<lparr>status = st, statusText = [],
      headers = [(''content-type'', ''text/plain;charset=UTF-8'')], body = txt\<rparr>"

definition lower_char :: "char \<Rightarrow> char" where
  "lower_char c =
     (case map_of (zip ''ABCDEFGHIJKLMNOPQRSTUVWXYZ'' ''abcdefghijklmnopqrstuvwxyz'') c of
        Some l \<Rightarrow> l
      | None \<Rightarrow> c)"

definition lower :: "string \<Rightarrow> string" where
  "lower s = map lower_char s"

text \<open>\<^verbatim>\<open>new Headers(h)\<close> copies the entries; \<^verbatim>\<open>headers.set(name, value)\<close> drops every
  entry of that name and adds the new one.\<close>

definition Headers_new :: "(string \<times> string) list \<Rightarrow> (string \<times> string) list" where
  "Headers_new h = map (\<lambda>(n, v). (lower n, v)) h"

definition Headers_set :: "string \<Rightarrow> string \<Rightarrow> (string \<times> string) list \<Rightarrow> (string \<times> string) list" where
  "Headers_set name v h = filter (\<lambda>(n, _). n \<noteq> lower name) h @ [(lower name, v)]"

text \<open>The body of a Bot API reply, after \<^verbatim>\<open>response.json()\<close>.\<close>

record 'r api_reply =
  ok :: bool
  result :: "'r option"

record chat_member =
  member_status :: string

record tg_path =
  file_path :: "string option"

text \<open>The JSON body posted to \<^verbatim>\<open>sendMessage\<close>: \<^verbatim>\<open>chat_id\<close>, \<^verbatim>\<open>text\<close>,
  \<^verbatim>\<open>parse_mode\<close>.\<close>

datatype sent = SendMessage int string string

text \<open>
  Everything the worker reads from outside its source: the bindings configured in the
  dashboard, the answers of the network, the token that \<^verbatim>\<open>crypto.randomUUID()\<close> draws
  for this request, and \<^verbatim>\<open>JSON.parse\<close> on a stored text. A \<^verbatim>\<open>fetch\<close> that rejects, or
  a body that is not JSON, is an \<open>Inl\<close>; each network answer is keyed by the URL the
  source builds. \<^verbatim>\<open>JSON.parse\<close> is typed to return a metadata object: the store holds
  what \<^verbatim>\<open>JSON.stringify\<close> wrote for one.
\<close>

record env =
  BOT_TOKEN :: string
  WORKER_DOMAIN :: string
  CHANNEL_ID :: string
  CHANNEL_USERNAME :: string
  fetch_getChatMember :: "string \<Rightarrow> js_error + chat_member api_reply"
  fetch_getFile :: "string \<Rightarrow> js_error + tg_path api_reply"
  fetch_sendMessage :: "string \<Rightarrow> sent \<Rightarrow> js_error + unit"
  fetch :: "string \<Rightarrow> js_error + http_response"
  randomUUID :: string
  JSON_parse :: "string \<Rightarrow> js_error + file_info"

text \<open>
  Modelled from the spec: the Link Store. It is the \<^verbatim>\<open>LINKS_KV\<close> binding, a service of
  the platform whose code is not in the repository, and follows the contract of section
  4.4 as a list of key and value texts: \<open>put\<close> is an upsert, \<open>get\<close> returns the
  value or nothing, \<open>delete\<close> removes the key and \<open>list\<close> returns the keys that
  start with the prefix, in the order of the store. The paging of a long listing and
  the delay with which the service shows a write are not modelled.
\<close>

type_synonym store = "(string \<times> string) list"

definition LINKS_KV_get :: "store \<Rightarrow> string \<Rightarrow> string option" where
  "LINKS_KV_get st k = map_of st k"

fun LINKS_KV_put :: "store \<Rightarrow> string \<Rightarrow> string \<Rightarrow> store" where
  "LINKS_KV_put [] k v = [(k, v)]"
| "LINKS_KV_put ((k', v') # st) k v =
     (if k' = k then (k, v) # st else (k', v') # LINKS_KV_put st k v)"

definition LINKS_KV_delete :: "store \<Rightarrow> string \<Rightarrow> store" where
  "LINKS_KV_delete st k = filter (\<lambda>(k', _). k' \<noteq> k) st"

definition LINKS_KV_list :: "store \<Rightarrow> string \<Rightarrow> string list" where
  "LINKS_KV_list st prefix = filter (\<lambda>k. startsWith k prefix) (map fst st)"

text \<open>The state a request can change: the Link Store, and the messages posted to
  Telegram so far.\<close>

record world =
  kv :: store
  outbox :: "sent list"

type_synonym handled = "(js_error + http_response) \<times> world"

section \<open>Helper functions of the worker\<close>

definition TELEGRAM_API_URL :: "env \<Rightarrow> string" where
  "TELEGRAM_API_URL env = ''https://api.telegram.org/bot'' @ BOT_TOKEN env"

text \<open>\<^verbatim>\<open>isUserMember\<close>: the body of the \<^verbatim>\<open>try\<close> block, which throws when the fetch
  rejects, when the body is not JSON and when \<^verbatim>\<open>data.result\<close> is missing; then the
  function with its \<^verbatim>\<open>catch\<close>.\<close>

definition getChatMember_url :: "env \<Rightarrow> int \<Rightarrow> string" where
  "getChatMember_url env userId =
     TELEGRAM_API_URL env @ ''/getChatMember?chat_id='' @ CHANNEL_ID env
       @ ''&user_id='' @ show_int userId"

definition isUserMember_try :: "env \<Rightarrow> int \<Rightarrow> js_error + bool" where
  "isUserMember_try env userId =
     (case fetch_getChatMember env (getChatMember_url env userId) of
        Inl e \<Rightarrow> Inl e
      | Inr data \<Rightarrow>
          if \<not> ok data then Inr False
          else (case result data of
                  None \<Rightarrow> Inl TypeError
                | Some r \<Rightarrow>
                    Inr (member_status r \<in> set [''member'', ''creator'', ''administrator''])))"

definition isUserMember :: "env \<Rightarrow> int \<Rightarrow> bool" where
  "isUserMember env userId =
     (case isUserMember_try env userId of Inl e \<Rightarrow> False | Inr b \<Rightarrow> b)"

text \<open>\<^verbatim>\<open>sendTelegramMessage\<close>: the POST is issued, its answer is not read; only a fetch
  that rejects keeps the function from returning its \<open>200\<close>.\<close>

definition sendTelegramMessage :: "env \<Rightarrow> world \<Rightarrow> int \<Rightarrow> string \<Rightarrow> handled" where
  "sendTelegramMessage env w chatId txt =
     (let req = SendMessage chatId txt ''Markdown'';
          w' = w\<lparr>outbox := outbox w @ [req]\<rparr>
      in case fetch_sendMessage env (TELEGRAM_API_URL env @ ''/sendMessage'') req of
           Inl e \<Rightarrow> (Inl e, w')
         | Inr _ \<Rightarrow> (Inr (Response ''OK'' 200), w'))"

text \<open>\<^verbatim>\<open>getTelegramFileLink\<close>, again the \<^verbatim>\<open>try\<close> block and the function; \<open>None\<close> is
  \<^verbatim>\<open>null\<close>.\<close>

definition getTelegramFileLink_try :: "env \<Rightarrow> string option \<Rightarrow> js_error + string option" where
  "getTelegramFileLink_try env fid =
     (case fetch_getFile env (TELEGRAM_API_URL env @ ''/getFile?file_id='' @ show_str fid) of
        Inl e \<Rightarrow> Inl e
      | Inr data \<Rightarrow>
          if \<not> ok data then Inr None
          else (case result data of
                  None \<Rightarrow> Inl TypeError
                | Some r \<Rightarrow>
                    Inr (Some (''https://api.telegram.org/file/bot'' @ BOT_TOKEN env @ ''/''
                               @ show_str (file_path r)))))"

definition getTelegramFileLink :: "env \<Rightarrow> string option \<Rightarrow> string option" where
  "getTelegramFileLink env fid =
     (case getTelegramFileLink_try env fid of Inl e \<Rightarrow> None | Inr u \<Rightarrow> u)"

section \<open>Reading a stored record back\<close>

text \<open>
  \<^verbatim>\<open>JSON.parse\<close> on the texts the Link Store holds. The decoder below accepts a JSON
  object whose members are, in this order and each optional, \<^verbatim>\<open>fileId\<close> and
  \<^verbatim>\<open>fileName\<close> with a string and \<^verbatim>\<open>fileSize\<close> with an integer, written without white
  space: the texts of \<open>JSON_stringify\<close>. On these it returns the object, as
  \<^verbatim>\<open>JSON.parse\<close> does; it refuses every other text with \<open>SyntaxError\<close>, as
  \<^verbatim>\<open>JSON.parse\<close> refuses a text that is not JSON. JSON texts of another shape, which the
  worker never writes, are outside the typed model. The handlers take \<^verbatim>\<open>JSON.parse\<close>
  from the environment, so what is proved of them holds for any parser; this decoder is
  the one the example deployment below runs with.
\<close>

fun strip_prefix :: "string \<Rightarrow> string \<Rightarrow> string option" where
  "strip_prefix [] s = Some s"
| "strip_prefix (p # ps) [] = None"
| "strip_prefix (p # ps) (c # cs) = (if p = c then strip_prefix ps cs else None)"

definition hexval :: "char \<Rightarrow> nat option" where
  "hexval c = map_of (zip ''0123456789abcdefABCDEF''
                 [0, 1, 2, 3, 4, 5, 6, 7, 8, 9, 10, 11, 12, 13, 14, 15, 10, 11, 12, 13, 14, 15]) c"

definition simple_escape :: "char \<Rightarrow> char option" where
  "simple_escape c = map_of (zip (''bfnrt/'' @ [CHR 0x22, CHR 0x5C])
                        [CHR 0x08, CHR 0x0C, CHR 0x0A, CHR 0x0D, CHR 0x09, CHR ''/'', CHR 0x22, CHR 0x5C]) c"

definition ascii :: "nat \<Rightarrow> char option" where
  "ascii n = (if n < 128 then Some (char_of n) else None)"

text \<open>The characters of a string literal after its opening quote, up to the closing
  one, and the rest of the text. An escape \<open>\<backslash>uXXXX\<close> is read when it names an ASCII
  character.\<close>

fun json_chars :: "string \<Rightarrow> (string \<times> string) option" where
  "json_chars [] = None"
| "json_chars (c # cs) =
     (if c = CHR 0x22 then Some ([], cs)
      else if c = CHR 0x5C then
        (case cs of
           [] \<Rightarrow> None
         | e # r \<Rightarrow>
             (case simple_escape e of
                Some x \<Rightarrow> map_option (\<lambda>(s, rest). (x # s, rest)) (json_chars r)
              | None \<Rightarrow>
                  (case r of
                     a # b # h # l # r' \<Rightarrow>
                       (if e = CHR ''u'' \<and> a = CHR ''0'' \<and> b = CHR ''0'' then
                          (case (hexval h, hexval l) of
                             (Some hi, Some lo) \<Rightarrow>
                               (case ascii (16 * hi + lo) of
                                  Some x \<Rightarrow> map_option (\<lambda>(s, rest). (x # s, rest)) (json_chars r')
                                | None \<Rightarrow> None)
                           | _ \<Rightarrow> None)
                        else None)
                   | _ \<Rightarrow> None)))
      else if (of_char c :: nat) < 32 then None
      else map_option (\<lambda>(s, rest). (c # s, rest)) (json_chars cs))"

definition json_string_value :: "string \<Rightarrow> (string \<times> string) option" where
  "json_string_value s =
     (case s of [] \<Rightarrow> None | c # cs \<Rightarrow> if c = CHR 0x22 then json_chars cs else None)"

definition digitval :: "char \<Rightarrow> nat option" where
  "digitval c = map_of (zip ''0123456789'' [0, 1, 2, 3, 4, 5, 6, 7, 8, 9]) c"

text \<open>The digits at the front of a text, with the number read so far.\<close>

fun json_digits :: "nat \<Rightarrow> string \<Rightarrow> nat \<times> string" where
  "json_digits acc [] = (acc, [])"
| "json_digits acc (c # cs) =
     (case digitval c of None \<Rightarrow> (acc, c # cs) | Some d \<Rightarrow> json_digits (10 * acc + d) cs)"

text \<open>An integer literal: an optional minus sign, then \<open>0\<close> or digits without a
  leading zero.\<close>

definition json_int_value :: "string \<Rightarrow> (int \<times> string) option" where
  "json_int_value s =
     (let neg = (s \<noteq> [] \<and> hd s = CHR ''-'');
          t = (if neg then tl s else s)
      in case t of
           [] \<Rightarrow> None
         | c # cs \<Rightarrow>
             (case digitval c of
                None \<Rightarrow> None
              | Some d \<Rightarrow>
                  if d = 0 \<and> cs \<noteq> [] \<and> digitval (hd cs) \<noteq> None then None
                  else (let (n, rest) = json_digits 0 t
                        in Some (if neg then - int n else int n, rest))))"

text \<open>An optional member \<open>name\<close> at the front of the remaining text; \<open>sep\<close> says that
  a member was read before, so that a comma has to precede this one.\<close>

definition json_member ::
  "(string \<Rightarrow> ('a \<times> string) option) \<Rightarrow> string \<Rightarrow> bool \<Rightarrow> string
     \<Rightarrow> ('a option \<times> bool \<times> string) option" where
  "json_member val name sep s =
     (case strip_prefix ((if sep then '','' else []) @ json_string name @ '':'') s of
        None \<Rightarrow> Some (None, sep, s)
      | Some r \<Rightarrow> (case val r of None \<Rightarrow> None | Some (v, rest) \<Rightarrow> Some (Some v, True, rest)))"

definition decode_record :: "string \<Rightarrow> file_info option" where
  "decode_record s =
     (case strip_prefix ''{'' s of
        None \<Rightarrow> None
      | Some r0 \<Rightarrow>
     (case json_member json_string_value ''fileId'' False r0 of
        None \<Rightarrow> None
      | Some (fid, sep1, r1) \<Rightarrow>
     (case json_member json_string_value ''fileName'' sep1 r1 of
        None \<Rightarrow> None
      | Some (fname, sep2, r2) \<Rightarrow>
     (case json_member json_int_value ''fileSize'' sep2 r2 of
        None \<Rightarrow> None
      | Some (fsize, sep3, r3) \<Rightarrow>
          if r3 = ''}'' then Some \<lparr>fileId = fid, fileName = fname, fileSize = fsize\<rparr>
          else None))))"

definition JSON_parse_record :: "string \<Rightarrow> js_error + file_info" where
  "JSON_parse_record s = (case decode_record s of None \<Rightarrow> Inl SyntaxError | Some m \<Rightarrow> Inr m)"

section \<open>Reply texts\<close>

text \<open>The literals of the source, byte for byte; each pictograph is spelt by its UTF-8
  bytes, a line feed is \<open>CHR 0x0A\<close> and a backquote is \<open>CHR 0x60\<close>.\<close>

definition NL :: string where "NL = [CHR 0x0A]"
definition BQ :: string where "BQ = [CHR 0x60]"
definition NO_ENTRY :: string where "NO_ENTRY = [CHR 0xE2, CHR 0x9B, CHR 0x94]"
definition WAVE :: string where "WAVE = [CHR 0xF0, CHR 0x9F, CHR 0x91, CHR 0x8B]"
definition EXCLAMATION :: string where "EXCLAMATION = [CHR 0xE2, CHR 0x9D, CHR 0x97]"
definition CROSS :: string where "CROSS = [CHR 0xE2, CHR 0x9D, CHR 0x8C]"
definition CHECK_MARK :: string where "CHECK_MARK = [CHR 0xE2, CHR 0x9C, CHR 0x85]"
definition WARNING :: string where
  "WARNING = [CHR 0xE2, CHR 0x9A, CHR 0xA0, CHR 0xEF, CHR 0xB8, CHR 0x8F]"
definition INFORMATION :: string where
  "INFORMATION = [CHR 0xE2, CHR 0x84, CHR 0xB9, CHR 0xEF, CHR 0xB8, CHR 0x8F]"
definition LINK_SIGN :: string where "LINK_SIGN = [CHR 0xF0, CHR 0x9F, CHR 0x94, CHR 0x97]"
definition BULLET :: string where "BULLET = [CHR 0xE2, CHR 0x80, CHR 0xA2]"

definition join_channel_text :: "env \<Rightarrow> string" where
  "join_channel_text env =
     NO_ENTRY @ '' To use this bot, you must first join '' @ CHANNEL_USERNAME env @ ''.''"

definition start_text :: string where
  "start_text = WAVE
     @ '' Hi! Send me a file (up to 20MB), and I will generate a direct download link for you.''"

definition invalid_file_text :: string where
  "invalid_file_text = EXCLAMATION @ '' Please send a valid file.''"

definition too_large_text :: string where
  "too_large_text = CROSS @ '' Sorry, bots cannot process files larger than 20MB.''"

definition link_ready_text :: "string \<Rightarrow> string" where
  "link_ready_text link =
     CHECK_MARK @ '' Your download link is ready:'' @ NL @ BQ @ link @ BQ @ NL @ NL @ WARNING
       @ '' This is a direct link from Telegram and may expire after a while.''"

definition no_links_text :: string where
  "no_links_text = INFORMATION @ '' You have no active links.''"

definition links_header :: string where
  "links_header = LINK_SIGN @ '' Your active links:'' @ NL @ NL"

definition missing_params_text :: string where
  "missing_params_text = NO_ENTRY @ '' Missing user ID or token.''"

definition invalid_link_text :: string where
  "invalid_link_text = NO_ENTRY @ '' This link is invalid or has expired.''"

definition upstream_failed_text :: string where
  "upstream_failed_text =
     CROSS @ '' Could not retrieve file from Telegram. The link may have expired.''"

section \<open>Keys, links and the link-listing flow\<close>

text \<open>The two template literals that the handlers share: the key
  \<^verbatim>\<open>user:${userId}:${token}\<close> and the link \<^verbatim>\<open>${WORKER_DOMAIN}/file/${userId}/${token}\<close>.\<close>

definition link_key :: "string \<Rightarrow> string \<Rightarrow> string" where
  "link_key uid token = ''user:'' @ uid @ '':'' @ token"

definition file_link :: "env \<Rightarrow> string \<Rightarrow> string \<Rightarrow> string" where
  "file_link env uid token = WORKER_DOMAIN env @ ''/file/'' @ uid @ ''/'' @ token"

text \<open>One pass of the loop body of \<^verbatim>\<open>sendUserLinks\<close> after the value was read and parsed:
  the token is the third piece of the key, and the line appended to the message.\<close>

definition link_line :: "env \<Rightarrow> int \<Rightarrow> string \<Rightarrow> file_info \<Rightarrow> string" where
  "link_line env userId name meta =
     (let token = at (split CHR '':'' name) 2;
          link = file_link env (show_int userId) (show_str token)
      in BULLET @ '' '' @ show_str (fileName meta) @ '' ('' @ sizeMB (fileSize meta) @ '' MB)''
           @ NL @ BQ @ link @ BQ @ NL @ NL)"

text \<open>The \<^verbatim>\<open>for\<close> loop over \<^verbatim>\<open>list.keys\<close>, with the message built so far; a
  \<^verbatim>\<open>JSON.parse\<close> that throws ends it.\<close>

fun links_loop :: "env \<Rightarrow> store \<Rightarrow> int \<Rightarrow> string list \<Rightarrow> string \<Rightarrow> js_error + string" where
  "links_loop env st userId [] msg = Inr msg"
| "links_loop env st userId (name # keys) msg =
     (let v = LINKS_KV_get st name in
      if \<not> truthy_str v then links_loop env st userId keys msg
      else (case JSON_parse env (the v) of
              Inl e \<Rightarrow> Inl e
            | Inr meta \<Rightarrow> links_loop env st userId keys (msg @ link_line env userId name meta)))"

definition sendUserLinks :: "env \<Rightarrow> world \<Rightarrow> int \<Rightarrow> int \<Rightarrow> handled" where
  "sendUserLinks env w chatId userId =
     (let keys = LINKS_KV_list (kv w) (''user:'' @ show_int userId @ '':'') in
      if length keys = 0 then sendTelegramMessage env w chatId no_links_text
      else (case links_loop env (kv w) userId keys links_header of
              Inl e \<Rightarrow> (Inl e, w)
            | Inr msg \<Rightarrow> sendTelegramMessage env w chatId msg))"

section \<open>The webhook handler\<close>

record tg_update =
  message :: "tg_message option"

text \<open>The request: its method, the path of its URL, and what \<^verbatim>\<open>request.json()\<close>
  gives (\<open>Inl\<close> when the body is not JSON).\<close>

record request =
  "method" :: string
  pathname :: string
  json :: "js_error + tg_update"

text \<open>\<^verbatim>\<open>handleTelegramWebhook\<close> in three parts: lines 84 to 89, which mint the token, store
  the record and send the link; lines 62 to 82, the checks on a message whose chat and
  sender are known; and the function itself, lines 48 to 60.\<close>

definition issue_link :: "env \<Rightarrow> world \<Rightarrow> int \<Rightarrow> int \<Rightarrow> file_info \<Rightarrow> handled" where
  "issue_link env w chatId userId info =
     (let token = randomUUID env;
          key = link_key (show_int userId) token;
          w' = w\<lparr>kv := LINKS_KV_put (kv w) key (JSON_stringify info)\<rparr>;
          link = file_link env (show_int userId) token
      in sendTelegramMessage env w' chatId (link_ready_text link))"

definition handle_message :: "env \<Rightarrow> world \<Rightarrow> tg_message \<Rightarrow> int \<Rightarrow> int \<Rightarrow> handled" where
  "handle_message env w msg chatId userId =
     (if \<not> isUserMember env userId then sendTelegramMessage env w chatId (join_channel_text env)
      else if truthy_str (message_text msg) \<and> the (message_text msg) = ''/start''
        then sendTelegramMessage env w chatId start_text
      else if truthy_str (message_text msg) \<and> startsWith (the (message_text msg)) ''/links''
        then sendUserLinks env w chatId userId
      else
        (let info = extractFileInfo msg in
         if \<not> truthy_str (fileId info) \<or> \<not> truthy_str (fileName info)
           then sendTelegramMessage env w chatId invalid_file_text
         else if exceeds (fileSize info) MAX_FILE_SIZE
           then sendTelegramMessage env w chatId too_large_text
         else issue_link env w chatId userId info))"

definition handleTelegramWebhook :: "env \<Rightarrow> world \<Rightarrow> request \<Rightarrow> handled" where
  "handleTelegramWebhook env w req =
     (if method req \<noteq> ''POST'' then (Inr (Response ''Invalid request method'' 405), w)
      else (case json req of
              Inl e \<Rightarrow> (Inl e, w)
            | Inr upd \<Rightarrow>
                (case message upd of
                   None \<Rightarrow> (Inr (Response ''OK'' 200), w)
                 | Some msg \<Rightarrow>
                     if \<not> truthy_num (chat_id msg) \<or> \<not> truthy_num (from_id msg)
                       then (Inr (Response ''OK'' 200), w)
                     else handle_message env w msg (the (chat_id msg)) (the (from_id msg)))))"

section \<open>The file-serving handler\<close>

text \<open>Lines 117 to 126: the response built from the upstream one, whose status is taken
  to be one a \<^verbatim>\<open>Response\<close> can be built with.\<close>

definition relay :: "http_response \<Rightarrow> file_info \<Rightarrow> http_response" where
  "relay fileResponse meta =
     \<lparr>status = status fileResponse,
      statusText = statusText fileResponse,
      headers = Headers_set ''Content-Disposition''
                  (''attachment; filename='' @ [CHR 0x22]
                     @ encodeURIComponent (show_str (fileName meta)) @ [CHR 0x22])
                  (Headers_new (headers fileResponse)),
      body = body fileResponse\<rparr>"

definition serveFile :: "env \<Rightarrow> world \<Rightarrow> string option \<Rightarrow> string option \<Rightarrow> handled" where
  "serveFile env w userId token =
     (if \<not> truthy_str userId \<or> \<not> truthy_str token
        then (Inr (Response missing_params_text 400), w)
      else
        (let key = link_key (show_str userId) (show_str token);
             metaStr = LINKS_KV_get (kv w) key
         in if \<not> truthy_str metaStr then (Inr (Response invalid_link_text 403), w)
            else (case JSON_parse env (the metaStr) of
                    Inl e \<Rightarrow> (Inl e, w)
                  | Inr meta \<Rightarrow>
                      (case getTelegramFileLink env (fileId meta) of
                         None \<Rightarrow>
                           (Inr (Response upstream_failed_text 502),
                            w\<lparr>kv := LINKS_KV_delete (kv w) key\<rparr>)
                       | Some telegramFileUrl \<Rightarrow>
                           (case fetch env telegramFileUrl of
                              Inl e \<Rightarrow> (Inl e, w)
                            | Inr fileResponse \<Rightarrow> (Inr (relay fileResponse meta), w))))))"

section \<open>The router\<close>

definition handleRequest :: "env \<Rightarrow> world \<Rightarrow> request \<Rightarrow> handled" where
  "handleRequest env w req =
     (let pathParts = split CHR ''/'' (pathname req) in
      if at pathParts 1 = Some ''webhook'' then handleTelegramWebhook env w req
      else if at pathParts 1 = Some ''file'' then serveFile env w (at pathParts 2) (at pathParts 3)
      else (Inr (Response ''Not Found'' 404), w))"

section \<open>Requests that reach a given step of the webhook handler\<close>

text \<open>A recognised command: a non-empty text that is \<^verbatim>\<open>/start\<close> or starts with
  \<^verbatim>\<open>/links\<close> (lines 66 to 73).\<close>

definition is_command :: "tg_message \<Rightarrow> bool" where
  "is_command m \<longleftrightarrow>
     truthy_str (message_text m)
     \<and> (the (message_text m) = ''/start'' \<or> startsWith (the (message_text m)) ''/links'')"

text \<open>A well-formed inbound message: a POST whose body is an update with a message
  \<open>m\<close> that names a chat and a sender.\<close>

definition inbound :: "request \<Rightarrow> tg_message \<Rightarrow> int \<Rightarrow> int \<Rightarrow> bool" where
  "inbound req m chatId userId \<longleftrightarrow>
     method req = ''POST'' \<and> json req = Inr \<lparr>message = Some m\<rparr>
     \<and> chat_id m = Some chatId \<and> chatId \<noteq> 0 \<and> from_id m = Some userId \<and> userId \<noteq> 0"

text \<open>An inbound message of a member that is not a command, so that the handler goes
  on to file extraction.\<close>

definition member_file_message :: "env \<Rightarrow> request \<Rightarrow> tg_message \<Rightarrow> int \<Rightarrow> int \<Rightarrow> bool" where
  "member_file_message env req m chatId userId \<longleftrightarrow>
     inbound req m chatId userId \<and> isUserMember env userId \<and> \<not> is_command m"

text \<open>The HTTP status a handler answers with, when it returns a response.\<close>

definition status_of :: "handled \<Rightarrow> nat option" where
  "status_of h = (case fst h of Inl e \<Rightarrow> None | Inr r \<Rightarrow> Some (status r))"

text \<open>The world after one more message was posted to a chat.\<close>

definition posted :: "world \<Rightarrow> int \<Rightarrow> string \<Rightarrow> world" where
  "posted w chatId txt = w\<lparr>outbox := outbox w @ [SendMessage chatId txt ''Markdown'']\<rparr>"

section \<open>An example deployment\<close>

text \<open>
  A concrete environment on which the theorems below are instantiated. User \<open>42\<close> is a
  member of the channel and user \<open>7\<close> has left it; the query for user \<open>9\<close> is
  answered without a result, and for any other user the network fails. The file
  \<^verbatim>\<open>abc\<close> resolves to a path, every other file identifier is refused by
  \<^verbatim>\<open>getFile\<close>; the resolved URL answers with a small PDF.
\<close>

definition example_upstream :: http_response where
  "example_upstream =
     \<lparr>status = 200, statusText = ''OK'',
      headers = [(''content-type'', ''application/pdf''),
                 (''content-disposition'', ''inline''),
                 (''content-length'', ''4'')],
      body = ''%PDF''\<rparr>"

definition example_env :: env where
  "example_env =
     \<lparr>BOT_TOKEN = ''1:S'',
      WORKER_DOMAIN = ''https://w.dev'',
      CHANNEL_ID = ''-100'',
      CHANNEL_USERNAME = ''@MyChannel'',
      fetch_getChatMember =
        (\<lambda>url. if url = ''https://api.telegram.org/bot1:S/getChatMember?chat_id=-100&user_id=42''
                then Inr \<lparr>ok = True, result = Some \<lparr>member_status = ''member''\<rparr>\<rparr>
              else if url = ''https://api.telegram.org/bot1:S/getChatMember?chat_id=-100&user_id=7''
                then Inr \<lparr>ok = True, result = Some \<lparr>member_status = ''left''\<rparr>\<rparr>
              else if url = ''https://api.telegram.org/bot1:S/getChatMember?chat_id=-100&user_id=9''
                then Inr \<lparr>ok = True, result = None\<rparr>
              else Inl NetworkError),
      fetch_getFile =
        (\<lambda>url. if url = ''https://api.telegram.org/bot1:S/getFile?file_id=abc''
                then Inr \<lparr>ok = True, result = Some \<lparr>file_path = Some ''documents/f.pdf''\<rparr>\<rparr>
              else Inr \<lparr>ok = False, result = None\<rparr>),
      fetch_sendMessage = (\<lambda>url req. Inr ()),
      fetch =
        (\<lambda>url. if url = ''https://api.telegram.org/file/bot1:S/documents/f.pdf''
                then Inr example_upstream
              else Inl NetworkError),
      randomUUID = ''9b2f'',
      JSON_parse = JSON_parse_record\<rparr>"

text \<open>A message of a sender in their private chat, and the webhook request that
  delivers it.\<close>

definition message_from :: "int \<Rightarrow> tg_message" where
  "message_from uid =
     \<lparr>chat_id = Some uid, from_id = Some uid, message_text = None, document = None,
      video = None, audio = None, photo = None\<rparr>"

definition webhook_post :: "tg_message \<Rightarrow> request" where
  "webhook_post m = \<lparr>method = ''POST'', pathname = ''/webhook'', json = Inr \<lparr>message = Some m\<rparr>\<rparr>"

definition report_pdf :: "int option \<Rightarrow> tg_file" where
  "report_pdf sz = \<lparr>file_id = ''abc'', file_name = Some ''report.pdf'', file_size = sz\<rparr>"

definition pdf_message :: "int \<Rightarrow> int option \<Rightarrow> tg_message" where
  "pdf_message uid sz = (message_from uid)\<lparr>document := Some (report_pdf sz)\<rparr>"

definition text_message :: "int \<Rightarrow> string \<Rightarrow> tg_message" where
  "text_message uid t = (message_from uid)\<lparr>message_text := Some t\<rparr>"

text \<open>Attachments without a name, and messages that carry them.\<close>

definition unnamed :: "string \<Rightarrow> int \<Rightarrow> tg_file" where
  "unnamed fid sz = \<lparr>file_id = fid, file_name = None, file_size = Some sz\<rparr>"

definition video_message :: tg_message where
  "video_message = (message_from 42)\<lparr>video := Some (unnamed ''vid'' 5000)\<rparr>"

definition audio_message :: tg_message where
  "audio_message = (message_from 42)\<lparr>audio := Some (unnamed ''aud'' 4000)\<rparr>"

definition photo_message :: tg_message where
  "photo_message =
     (message_from 42)\<lparr>photo := Some [unnamed ''small'' 100, unnamed ''medium'' 900,
                                         unnamed ''large'' 3000]\<rparr>"

text \<open>A photo whose variants arrive with the largest first.\<close>

definition descending_photo_message :: tg_message where
  "descending_photo_message =
     (message_from 42)\<lparr>photo := Some [unnamed ''large'' 3000, unnamed ''small'' 100]\<rparr>"

definition mixed_message :: tg_message where
  "mixed_message =
     (message_from 42)\<lparr>document := Some (report_pdf (Some 1048576)),
                          video := Some (unnamed ''vid'' 5000)\<rparr>"

definition empty_world :: world where
  "empty_world = \<lparr>kv = [], outbox = []\<rparr>"

text \<open>A store with two records of user \<open>42\<close>, the second for a file that no longer
  resolves, a key of the same user whose value reads back empty, and a record of
  another user; and a store with a value that is not JSON.\<close>

definition example_store :: store where
  "example_store =
     [(''user:42:9b2f'',
       JSON_stringify \<lparr>fileId = Some ''abc'', fileName = Some ''annual report.pdf'',
                        fileSize = Some 1048576\<rparr>),
      (''user:7:77aa'',
       JSON_stringify \<lparr>fileId = Some ''abc'', fileName = Some ''other.pdf'',
                        fileSize = Some 10\<rparr>),
      (''user:42:void'', []),
      (''user:42:dead'',
       JSON_stringify \<lparr>fileId = Some ''old'', fileName = Some ''old.bin'',
                        fileSize = Some 1572864\<rparr>)]"

definition issued_world :: world where
  "issued_world = \<lparr>kv = example_store, outbox = []\<rparr>"

definition junk_world :: world where
  "junk_world = \<lparr>kv = [(''user:42:junk'', ''not json'')], outbox = []\<rparr>"

section \<open>Auxiliary facts\<close>

subsection \<open>The steps of the webhook handler\<close>

lemma snd_sendTelegramMessage: "snd (sendTelegramMessage env w chatId txt) = posted w chatId txt"
  by (simp add: sendTelegramMessage_def posted_def Let_def split: sum.splits)

lemma webhook_inbound:
  "inbound req m chatId userId \<Longrightarrow>
     handleTelegramWebhook env w req = handle_message env w m chatId userId"
  by (simp add: inbound_def handleTelegramWebhook_def)

lemma webhook_file_message:
  "member_file_message env req m chatId userId \<Longrightarrow>
     handleTelegramWebhook env w req =
       (let info = extractFileInfo m in
        if \<not> truthy_str (fileId info) \<or> \<not> truthy_str (fileName info)
          then sendTelegramMessage env w chatId invalid_file_text
        else if exceeds (fileSize info) MAX_FILE_SIZE
          then sendTelegramMessage env w chatId too_large_text
        else issue_link env w chatId userId info)"
  by (auto simp: member_file_message_def webhook_inbound handle_message_def is_command_def)

lemma snd_issue_link:
  "snd (issue_link env w chatId userId info) =
     posted (w\<lparr>kv := LINKS_KV_put (kv w) (link_key (show_int userId) (randomUUID env))
                       (JSON_stringify info)\<rparr>)
       chatId (link_ready_text (file_link env (show_int userId) (randomUUID env)))"
  by (simp add: issue_link_def Let_def snd_sendTelegramMessage)

subsection \<open>The Link Store\<close>

lemma get_put: "LINKS_KV_get (LINKS_KV_put st k v) k = Some v"
  by (induction st) (auto simp: LINKS_KV_get_def)

lemma get_delete: "LINKS_KV_get (LINKS_KV_delete st k) k = None"
  by (induction st) (auto simp: LINKS_KV_get_def LINKS_KV_delete_def)

subsection \<open>File extraction\<close>

lemma chosen_photo:
  "document m = None \<Longrightarrow> video m = None \<Longrightarrow> audio m = None \<Longrightarrow> photo m = Some ps \<Longrightarrow>
     chosen_file m = (if ps = [] then None else Some (last ps))"
  by (cases ps rule: rev_cases) (simp_all add: chosen_file_def at_def nth_append)

lemma fileName_explicit:
  "chosen_file m = Some f \<Longrightarrow> file_name f = Some name \<Longrightarrow> name \<noteq> [] \<Longrightarrow>
     fileName (extractFileInfo m) = Some name"
  by (simp add: extractFileInfo_def)

lemma fileName_default:
  "chosen_file m = Some f \<Longrightarrow> \<not> truthy_str (file_name f) \<Longrightarrow>
     fileName (extractFileInfo m) = Some (default_name m)"
  by (simp add: extractFileInfo_def)

lemma fileName_truthy:
  "chosen_file m = Some f \<Longrightarrow> truthy_str (fileName (extractFileInfo m))"
  by (cases "file_name f") (auto simp: extractFileInfo_def default_name_def)

lemma no_attachment:
  "document m = None \<Longrightarrow> video m = None \<Longrightarrow> audio m = None \<Longrightarrow>
   photo m = None \<or> photo m = Some [] \<Longrightarrow> chosen_file m = None"
  by (auto simp: chosen_file_def at_def)

subsection \<open>The branches of the file-serving handler\<close>

lemma status_Response: "status (Response t n) = n"
  by (simp add: Response_def)

lemma serveFile_missing:
  "\<not> truthy_str userId \<or> \<not> truthy_str token \<Longrightarrow>
     serveFile env w userId token = (Inr (Response missing_params_text 400), w)"
  by (auto simp: serveFile_def)

lemma serveFile_absent:
  "truthy_str userId \<Longrightarrow> truthy_str token \<Longrightarrow>
   \<not> truthy_str (LINKS_KV_get (kv w) (link_key (show_str userId) (show_str token))) \<Longrightarrow>
     serveFile env w userId token = (Inr (Response invalid_link_text 403), w)"
  by (simp add: serveFile_def Let_def)

lemma serveFile_present:
  "truthy_str userId \<Longrightarrow> truthy_str token \<Longrightarrow>
   LINKS_KV_get (kv w) (link_key (show_str userId) (show_str token)) = Some v \<Longrightarrow> v \<noteq> [] \<Longrightarrow>
   JSON_parse env v = Inr meta \<Longrightarrow>
     serveFile env w userId token =
       (case getTelegramFileLink env (fileId meta) of
          None \<Rightarrow> (Inr (Response upstream_failed_text 502),
                   w\<lparr>kv := LINKS_KV_delete (kv w) (link_key (show_str userId) (show_str token))\<rparr>)
        | Some url \<Rightarrow> (case fetch env url of
                         Inl e \<Rightarrow> (Inl e, w)
                       | Inr up \<Rightarrow> (Inr (relay up meta), w)))"
  by (simp add: serveFile_def Let_def)

lemma serveFile_cases:
  "(\<exists>t n. fst (serveFile env w userId token) = Inr (Response t n) \<and> n \<in> {400, 403, 502})
   \<or> (\<exists>e. fst (serveFile env w userId token) = Inl e)
   \<or> (\<exists>v meta url up.
         LINKS_KV_get (kv w) (link_key (show_str userId) (show_str token)) = Some v
         \<and> JSON_parse env v = Inr meta \<and> getTelegramFileLink env (fileId meta) = Some url
         \<and> fetch env url = Inr up \<and> serveFile env w userId token = (Inr (relay up meta), w))"
  by (cases "LINKS_KV_get (kv w) (link_key (show_str userId) (show_str token))")
     (auto simp: serveFile_def Let_def split: sum.splits option.splits)

subsection \<open>Keys, lines and sizes in the listing\<close>

lemma split_append: "c \<notin> set a \<Longrightarrow> split c (a @ c # b) = a # split c b"
  by (induction a) (auto split: list.splits)

lemma split_single: "c \<notin> set t \<Longrightarrow> split c t = [t]"
  by (induction t) (auto split: list.splits)

lemma digit_in: "digit d \<in> set ''0123456789''"
proof -
  have "d mod 10 < length ''0123456789''" by simp
  then show ?thesis unfolding digit_def by (rule nth_mem)
qed

lemma show_nat_digits: "set (show_nat n) \<subseteq> set ''0123456789''"
proof (induction n rule: show_nat.induct)
  case (1 n)
  show ?case
  proof (cases "n < 10")
    case True
    then show ?thesis using digit_in [of n] by (simp add: show_nat.simps [of n])
  next
    case False
    then show ?thesis
      using 1 digit_in [of "n mod 10"] by (simp add: show_nat.simps [of n])
  qed
qed

lemma show_int_no_colon: "CHR '':'' \<notin> set (show_int i)"
  using show_nat_digits [of "nat i"] show_nat_digits [of "nat (- i)"]
  by (auto simp: show_int_def)

lemma token_of_key:
  assumes "CHR '':'' \<notin> set token"
  shows "at (split CHR '':'' (link_key (show_int userId) token)) 2 = Some token"
proof -
  have "split CHR '':'' (''user'' @ CHR '':'' # (show_int userId @ CHR '':'' # token))
          = ''user'' # split CHR '':'' (show_int userId @ CHR '':'' # token)"
    by (rule split_append) simp
  also have "split CHR '':'' (show_int userId @ CHR '':'' # token)
          = show_int userId # split CHR '':'' token"
    by (rule split_append) (rule show_int_no_colon)
  also have "split CHR '':'' token = [token]"
    using assms by (rule split_single)
  finally show ?thesis
    by (simp add: link_key_def at_def)
qed

lemma link_line_issued:
  assumes "CHR '':'' \<notin> set token"
  shows "link_line env userId (link_key (show_int userId) token) meta =
           BULLET @ '' '' @ show_str (fileName meta) @ '' ('' @ sizeMB (fileSize meta) @ '' MB)''
             @ NL @ BQ @ WORKER_DOMAIN env @ ''/file/'' @ show_int userId @ ''/'' @ token @ BQ
             @ NL @ NL"
  by (simp add: link_line_def token_of_key [OF assms] file_link_def)

lemma links_loop_lines:
  "list_all2 (\<lambda>k meta. JSON_parse env (the (LINKS_KV_get st k)) = Inr meta)
     (filter (\<lambda>k. truthy_str (LINKS_KV_get st k)) keys) metas \<Longrightarrow>
   links_loop env st userId keys msg =
     Inr (msg @ concat (map2 (link_line env userId)
                          (filter (\<lambda>k. truthy_str (LINKS_KV_get st k)) keys) metas))"
proof (induction keys arbitrary: msg metas)
  case Nil
  then show ?case by simp
next
  case (Cons k keys)
  show ?case
  proof (cases "truthy_str (LINKS_KV_get st k)")
    case False
    with Cons show ?thesis by simp
  next
    case True
    with Cons.prems obtain meta rest where metas: "metas = meta # rest"
      and head: "JSON_parse env (the (LINKS_KV_get st k)) = Inr meta"
      and tail: "list_all2 (\<lambda>k meta. JSON_parse env (the (LINKS_KV_get st k)) = Inr meta)
                   (filter (\<lambda>k. truthy_str (LINKS_KV_get st k)) keys) rest"
      by (auto simp: list_all2_Cons1)
    from Cons.IH [OF tail] True head show ?thesis
      by (simp add: metas)
  qed
qed

lemma links_loop_throws:
  "k \<in> set keys \<Longrightarrow> truthy_str (LINKS_KV_get st k) \<Longrightarrow>
   JSON_parse env (the (LINKS_KV_get st k)) = Inl e \<Longrightarrow>
     \<exists>e'. links_loop env st userId keys msg = Inl e'"
proof (induction keys arbitrary: msg)
  case Nil
  then show ?case by simp
next
  case (Cons x keys)
  show ?case
  proof (cases "truthy_str (LINKS_KV_get st x)")
    case False
    with Cons show ?thesis by auto
  next
    case True
    show ?thesis
    proof (cases "JSON_parse env (the (LINKS_KV_get st x))")
      case (Inl a)
      with True show ?thesis by simp
    next
      case (Inr meta)
      with Cons.prems have "k \<in> set keys" by auto
      from Cons.IH [OF this Cons.prems(2,3)] True Inr show ?thesis by simp
    qed
  qed
qed

lemma sizeMB_rounds:
  "\<exists>q. sizeMB (Some (int n)) = show_nat (q div 100) @ ''.'' @ [digit (q mod 100 div 10), digit (q mod 10)]
       \<and> 200 * n < (2 * q + 1) * 1048576 \<and> 2 * q * 1048576 \<le> 200 * n + 1048576"
proof -
  define q where "q = (100 * n + 524288) div 1048576"
  define r where "r = (100 * n + 524288) mod 1048576"
  have shown: "sizeMB (Some (int n)) = show_nat (q div 100) @ ''.'' @ [digit (q mod 100 div 10), digit (q mod 10)]"
    by (simp add: toFixed2_nat_def Let_def q_def)
  have parts: "100 * n + 524288 = 1048576 * q + r"
    unfolding q_def r_def by (rule mult_div_mod_eq [symmetric])
  have small: "r < 1048576"
    unfolding r_def by (rule mod_less_divisor) simp
  from parts small have upper: "200 * n < (2 * q + 1) * 1048576"
    by (simp add: algebra_simps)
  from parts small have lower: "2 * q * 1048576 \<le> 200 * n + 1048576"
    by (simp add: algebra_simps)
  from shown upper lower show ?thesis by blast
qed

subsection \<open>The decoder reads back what \<open>JSON_stringify\<close> writes\<close>

lemma below_16: "(d::nat) < 16 \<Longrightarrow> d \<in> set [0, 1, 2, 3, 4, 5, 6, 7, 8, 9, 10, 11, 12, 13, 14, 15]"
  by (simp del: One_nat_def) arith

lemma hexval_hexlower: "d < 16 \<Longrightarrow> hexval (hexlower d) = Some d"
proof -
  have "\<forall>d \<in> set [0, 1, 2, 3, 4, 5, 6, 7, 8, 9, 10, 11, 12, 13, 14, 15]. hexval (hexlower d) = Some d"
    by (simp add: hexval_def hexlower_def)
  then show "d < 16 \<Longrightarrow> hexval (hexlower d) = Some d"
    using below_16 by blast
qed

lemma digitval_digit: "digitval (digit d) = Some (d mod 10)"
proof -
  have "\<forall>d \<in> set [0, 1, 2, 3, 4, 5, 6, 7, 8, 9]. digitval (digit d) = Some d"
    by (simp add: digitval_def digit_def)
  moreover have "d mod 10 \<in> set [0, 1, 2, 3, 4, 5, 6, 7, 8, 9]"
    by (simp del: One_nat_def) arith
  ultimately have "digitval (digit (d mod 10)) = Some (d mod 10)" by blast
  then show ?thesis by (simp add: digit_def)
qed

lemma json_chars_char:
  "json_chars (json_char c @ t) = map_option (\<lambda>(s, rest). (c # s, rest)) (json_chars t)"
proof -
  define n where "n = (of_char c :: nat)"
  have c: "c = char_of n" by (simp add: n_def)
  have lit: "c = k \<longleftrightarrow> n = of_char k" for k
    unfolding n_def by simp
  consider "c = CHR 0x08" | "c = CHR 0x09" | "c = CHR 0x0A" | "c = CHR 0x0C" | "c = CHR 0x0D"
    | "c = CHR 0x22" | "c = CHR 0x5C"
    | "n < 32" "n \<notin> {8, 9, 10, 12, 13}" | "n \<ge> 32" "c \<noteq> CHR 0x22" "c \<noteq> CHR 0x5C"
    by (fastforce simp: lit)
  then show ?thesis
  proof cases
    case 8
    have "hexval (hexlower (n div 16)) = Some (n div 16)" "hexval (hexlower (n mod 16)) = Some (n mod 16)"
      using 8 by (simp_all add: hexval_hexlower)
    moreover have "ascii (16 * (n div 16) + n mod 16) = Some c"
      using 8 by (simp add: ascii_def c)
    ultimately show ?thesis
      using 8 by (simp add: json_char_def n_def [symmetric] Let_def simple_escape_def)
  next
    case 9
    then have "n \<noteq> 34" "n \<noteq> 92" "\<not> n < 32" "n \<notin> {8, 9, 10, 12, 13}"
      by (simp_all add: lit)
    with 9 show ?thesis
      by (simp add: json_char_def n_def [symmetric] Let_def)
  qed (simp_all add: json_char_def Let_def simple_escape_def)
qed

lemma json_chars_escape:
  "json_chars (concat (map json_char s) @ CHR 0x22 # rest) = Some (s, rest)"
  by (induction s) (simp_all add: json_chars_char del: json_chars.simps, simp)

lemma json_string_value_quote: "json_string_value (json_string s @ rest) = Some (s, rest)"
  by (simp add: json_string_value_def json_string_def json_chars_escape del: json_chars.simps)

lemma digit_not_minus: "digit d \<noteq> CHR ''-''"
  using digit_in [of d] by auto

lemma json_digits_show_nat:
  "json_digits acc (show_nat n @ rest) = json_digits (acc * 10 ^ length (show_nat n) + n) rest"
proof (induction n arbitrary: acc rest rule: show_nat.induct)
  case (1 n)
  show ?case
  proof (cases "n < 10")
    case True
    then show ?thesis
      by (simp add: show_nat.simps [of n] digitval_digit mult.commute)
  next
    case False
    have "json_digits acc (show_nat n @ rest)
            = json_digits acc (show_nat (n div 10) @ digit (n mod 10) # rest)"
      using False by (simp add: show_nat.simps [of n])
    also have "\<dots> = json_digits (acc * 10 ^ length (show_nat (n div 10)) + n div 10)
                        (digit (n mod 10) # rest)"
      using False by (rule "1.IH")
    also have "\<dots> = json_digits (10 * (acc * 10 ^ length (show_nat (n div 10)) + n div 10) + n mod 10) rest"
      by (simp add: digitval_digit)
    also have "10 * (acc * 10 ^ length (show_nat (n div 10)) + n div 10) + n mod 10
                 = acc * 10 ^ length (show_nat n) + n"
      using False by (simp add: show_nat.simps [of n] algebra_simps)
    finally show ?thesis .
  qed
qed

lemma show_nat_first:
  "\<exists>d t. show_nat n = digit d # t \<and> d < 10 \<and> (d = 0 \<longrightarrow> n = 0 \<and> t = [])"
proof (induction n rule: show_nat.induct)
  case (1 n)
  show ?case
  proof (cases "n < 10")
    case True
    then show ?thesis
      by (auto simp: show_nat.simps [of n])
  next
    case False
    with 1 obtain d t where "show_nat (n div 10) = digit d # t" "d < 10" "d = 0 \<longrightarrow> n div 10 = 0"
      by blast
    with False show ?thesis
      by (auto simp: show_nat.simps [of n])
  qed
qed

lemma json_digits_stop:
  "rest = [] \<or> digitval (hd rest) = None \<Longrightarrow> json_digits acc rest = (acc, rest)"
  by (cases rest) auto

lemma json_nat_value:
  assumes "rest = [] \<or> digitval (hd rest) = None"
  shows "json_int_value (show_nat n @ rest) = Some (int n, rest)"
proof -
  obtain d t where first: "show_nat n = digit d # t" "d < 10" "d = 0 \<longrightarrow> n = 0 \<and> t = []"
    using show_nat_first by blast
  have run: "json_digits 0 (show_nat n @ rest) = (n, rest)"
    by (simp add: json_digits_show_nat json_digits_stop [OF assms])
  have lead: "\<not> (d = 0 \<and> t @ rest \<noteq> [] \<and> digitval (hd (t @ rest)) \<noteq> None)"
    using first(3) assms by auto
  show ?thesis
    using run lead first(2) unfolding first(1)
    by (simp add: json_int_value_def digit_not_minus digitval_digit Let_def)
qed

lemma json_int_value_show:
  assumes "rest = [] \<or> digitval (hd rest) = None"
  shows "json_int_value (show_int i @ rest) = Some (i, rest)"
proof (cases "i < 0")
  case False
  then show ?thesis
    using json_nat_value [OF assms, of "nat i"] by (simp add: show_int_def)
next
  case True
  obtain d t where first: "show_nat (nat (- i)) = digit d # t" "d < 10"
      "d = 0 \<longrightarrow> nat (- i) = 0 \<and> t = []"
    using show_nat_first by blast
  have run: "json_digits 0 (show_nat (nat (- i)) @ rest) = (nat (- i), rest)"
    by (simp add: json_digits_show_nat json_digits_stop [OF assms])
  have lead: "\<not> (d = 0 \<and> t @ rest \<noteq> [] \<and> digitval (hd (t @ rest)) \<noteq> None)"
    using first(3) assms by auto
  have "json_int_value (CHR ''-'' # show_nat (nat (- i)) @ rest) = Some (- int (nat (- i)), rest)"
    using run lead first(2) unfolding first(1)
    by (simp add: json_int_value_def digitval_digit Let_def)
  with True show ?thesis
    by (simp add: show_int_def)
qed

lemma strip_prefix_append: "strip_prefix p (p @ s) = Some s"
  by (induction p) auto

lemma member_names:
  \<open>json_string ''fileId'' = ''"fileId"''\<close>
  \<open>json_string ''fileName'' = ''"fileName"''\<close>
  \<open>json_string ''fileSize'' = ''"fileSize"''\<close>
  by (simp_all add: json_string_def json_char_def)

lemma JSON_parse_record_stringify: "JSON_parse_record (JSON_stringify m) = Inr m"
proof -
  obtain a b c where m: "m = \<lparr>fileId = a, fileName = b, fileSize = c\<rparr>"
    by (cases m) simp
  have stop: "json_int_value (show_int i @ ''}'') = Some (i, ''}'')" for i
    by (rule json_int_value_show) (simp add: digitval_def)
  have str: "json_string_value (json_string s @ rest) = Some (s, rest)" for s rest
    by (rule json_string_value_quote)
  show ?thesis
    unfolding m
    by (cases a; cases b; cases c)
       (simp_all add: JSON_parse_record_def decode_record_def json_member_def JSON_stringify_def
          json_property_def member_names str stop)
qed

section \<open>Facts about the example deployment\<close>

lemmas show_simps = show_int_def show_nat.simps digit_def

lemma example_config:
  "BOT_TOKEN example_env = ''1:S''" "WORKER_DOMAIN example_env = ''https://w.dev''"
  "CHANNEL_ID example_env = ''-100''" "CHANNEL_USERNAME example_env = ''@MyChannel''"
  "randomUUID example_env = ''9b2f''" "JSON_parse example_env = JSON_parse_record"
  by (simp_all add: example_env_def)

lemma example_members:
  "isUserMember example_env 42" "\<not> isUserMember example_env 7"
  "isUserMember_try example_env 5 = Inl NetworkError"
  by (simp_all add: isUserMember_def isUserMember_try_def getChatMember_url_def
        TELEGRAM_API_URL_def example_env_def show_simps)

lemma inbound_example:
  "uid \<noteq> 0 \<Longrightarrow> chat_id m = Some uid \<Longrightarrow> from_id m = Some uid \<Longrightarrow> inbound (webhook_post m) m uid uid"
  by (simp add: inbound_def webhook_post_def)

lemma pdf_message_simps:
  "chat_id (pdf_message uid sz) = Some uid" "from_id (pdf_message uid sz) = Some uid"
  "\<not> is_command (pdf_message uid sz)"
  "extractFileInfo (pdf_message uid sz) =
     \<lparr>fileId = Some ''abc'', fileName = Some ''report.pdf'', fileSize = sz\<rparr>"
  by (simp_all add: pdf_message_def message_from_def is_command_def extractFileInfo_def
        chosen_file_def report_pdf_def)

lemma pdf_member_file_message:
  "member_file_message example_env (webhook_post (pdf_message 42 sz)) (pdf_message 42 sz) 42 42"
  by (simp add: member_file_message_def inbound_example pdf_message_simps example_members)

lemma text_message_simps:
  "chat_id (text_message uid t) = Some uid" "from_id (text_message uid t) = Some uid"
  by (simp_all add: text_message_def message_from_def)

lemma example_messages:
  "document mixed_message = Some (report_pdf (Some 1048576))"
  "video mixed_message = Some (unnamed ''vid'' 5000)"
  "document video_message = None" "video video_message = Some (unnamed ''vid'' 5000)"
  "document audio_message = None" "video audio_message = None"
  "audio audio_message = Some (unnamed ''aud'' 4000)"
  "document photo_message = None" "video photo_message = None" "audio photo_message = None"
  "photo photo_message = Some [unnamed ''small'' 100, unnamed ''medium'' 900, unnamed ''large'' 3000]"
  "document (text_message uid t) = None" "video (text_message uid t) = None"
  "audio (text_message uid t) = None" "photo (text_message uid t) = None"
  by (simp_all add: mixed_message_def video_message_def audio_message_def photo_message_def
        text_message_def message_from_def)

lemma example_records:
  "JSON_parse_record (JSON_stringify \<lparr>fileId = Some ''abc'', fileName = Some ''annual report.pdf'',
                        fileSize = Some 1048576\<rparr>)
     = Inr \<lparr>fileId = Some ''abc'', fileName = Some ''annual report.pdf'', fileSize = Some 1048576\<rparr>"
  "JSON_parse_record (JSON_stringify \<lparr>fileId = Some ''old'', fileName = Some ''old.bin'',
                        fileSize = Some 1572864\<rparr>)
     = Inr \<lparr>fileId = Some ''old'', fileName = Some ''old.bin'', fileSize = Some 1572864\<rparr>"
  "JSON_parse_record ''not json'' = Inl SyntaxError"
  "JSON_stringify \<lparr>fileId = Some ''abc'', fileName = Some ''annual report.pdf'',
                        fileSize = Some 1048576\<rparr> \<noteq> []"
  "JSON_stringify \<lparr>fileId = Some ''old'', fileName = Some ''old.bin'',
                        fileSize = Some 1572864\<rparr> \<noteq> []"
  by (simp_all add: JSON_parse_record_def decode_record_def json_member_def json_string_value_def
        json_int_value_def digitval_def simple_escape_def JSON_stringify_def json_property_def
        json_string_def json_char_def show_simps)

lemma example_lookups:
  "LINKS_KV_get example_store (link_key ''42'' ''9b2f'')
     = Some (JSON_stringify \<lparr>fileId = Some ''abc'', fileName = Some ''annual report.pdf'',
                        fileSize = Some 1048576\<rparr>)"
  "LINKS_KV_get example_store (link_key ''42'' ''dead'')
     = Some (JSON_stringify \<lparr>fileId = Some ''old'', fileName = Some ''old.bin'',
                        fileSize = Some 1572864\<rparr>)"
  "LINKS_KV_get example_store (link_key ''42'' ''void'') = Some []"
  "LINKS_KV_get example_store (link_key ''42'' ''nope'') = None"
  by (simp_all add: LINKS_KV_get_def example_store_def link_key_def)

lemma example_resolution:
  "getTelegramFileLink example_env (Some ''abc'')
     = Some ''https://api.telegram.org/file/bot1:S/documents/f.pdf''"
  "getTelegramFileLink example_env (Some ''old'') = None"
  "fetch example_env ''https://api.telegram.org/file/bot1:S/documents/f.pdf'' = Inr example_upstream"
  by (simp_all add: getTelegramFileLink_def getTelegramFileLink_try_def TELEGRAM_API_URL_def
        example_env_def)

lemma example_listing:
  "LINKS_KV_list example_store ''user:42:'' = [''user:42:9b2f'', ''user:42:void'', ''user:42:dead'']"
  "LINKS_KV_list example_store ''user:5:'' = []"
  "LINKS_KV_list [(''user:42:junk'', ''not json'')] ''user:42:'' = [''user:42:junk'']"
  by (simp_all add: LINKS_KV_list_def startsWith_def example_store_def)

lemma example_lines:
  "link_line example_env 42 ''user:42:9b2f''
     \<lparr>fileId = Some ''abc'', fileName = Some ''annual report.pdf'', fileSize = Some 1048576\<rparr>
     = BULLET @ '' annual report.pdf (1.00 MB)'' @ NL @ BQ @ ''https://w.dev/file/42/9b2f'' @ BQ @ NL @ NL"
  "link_line example_env 42 ''user:42:dead''
     \<lparr>fileId = Some ''old'', fileName = Some ''old.bin'', fileSize = Some 1572864\<rparr>
     = BULLET @ '' old.bin (1.50 MB)'' @ NL @ BQ @ ''https://w.dev/file/42/dead'' @ BQ @ NL @ NL"
  by (simp_all add: link_line_def at_def file_link_def toFixed2_nat_def example_config show_simps)

section \<open>Claims\<close>

text \<open>
  Claim C1. A file message of a member whose extracted size is a number: at most
  \<open>20 * 1024 * 1024\<close> bytes, so also exactly at the ceiling, the handler stores the Link
  Record and posts the link; above the ceiling it posts the size-rejection text, leaves
  the Link Store as it was, and does nothing else.
\<close>

theorem size_ceiling_inclusive:
  assumes "member_file_message env req m chatId userId"
    and "truthy_str (fileId (extractFileInfo m))"
    and "truthy_str (fileName (extractFileInfo m))"
    and "fileSize (extractFileInfo m) = Some n"
  shows "(n \<le> 20 * 1024 * 1024 \<longrightarrow>
           snd (handleTelegramWebhook env w req) =
             posted (w\<lparr>kv := LINKS_KV_put (kv w) (link_key (show_int userId) (randomUUID env))
                                (JSON_stringify (extractFileInfo m))\<rparr>)
               chatId (link_ready_text (file_link env (show_int userId) (randomUUID env))))
       \<and> (n > 20 * 1024 * 1024 \<longrightarrow>
           snd (handleTelegramWebhook env w req) = posted w chatId too_large_text
           \<and> kv (snd (handleTelegramWebhook env w req)) = kv w)"
  using assms
  by (simp add: webhook_file_message Let_def MAX_FILE_SIZE_def snd_sendTelegramMessage
        snd_issue_link posted_def)

theorem size_ceiling_inclusive_witness:
  "member_file_message example_env (webhook_post (pdf_message 42 (Some 20971520)))
     (pdf_message 42 (Some 20971520)) 42 42
   \<and> fileSize (extractFileInfo (pdf_message 42 (Some 20971520))) = Some (20 * 1024 * 1024)
   \<and> snd (handleTelegramWebhook example_env empty_world (webhook_post (pdf_message 42 (Some 20971520))))
       = \<lparr>kv = [(''user:42:9b2f'',
                  JSON_stringify \<lparr>fileId = Some ''abc'', fileName = Some ''report.pdf'',
                                   fileSize = Some 20971520\<rparr>)],
          outbox = [SendMessage 42 (link_ready_text ''https://w.dev/file/42/9b2f'') ''Markdown'']\<rparr>
   \<and> fileSize (extractFileInfo (pdf_message 42 (Some 20971521))) = Some (20 * 1024 * 1024 + 1)
   \<and> snd (handleTelegramWebhook example_env empty_world (webhook_post (pdf_message 42 (Some 20971521))))
       = \<lparr>kv = [], outbox = [SendMessage 42 too_large_text ''Markdown'']\<rparr>"
proof -
  have at: "snd (handleTelegramWebhook example_env empty_world (webhook_post (pdf_message 42 (Some 20971520))))
       = \<lparr>kv = [(''user:42:9b2f'',
                  JSON_stringify \<lparr>fileId = Some ''abc'', fileName = Some ''report.pdf'',
                                   fileSize = Some 20971520\<rparr>)],
          outbox = [SendMessage 42 (link_ready_text ''https://w.dev/file/42/9b2f'') ''Markdown'']\<rparr>"
    using size_ceiling_inclusive [OF pdf_member_file_message, of "Some 20971520" 20971520 empty_world]
    by (simp add: pdf_message_simps posted_def empty_world_def link_key_def file_link_def
          example_config show_simps)
  have over: "snd (handleTelegramWebhook example_env empty_world (webhook_post (pdf_message 42 (Some 20971521))))
       = \<lparr>kv = [], outbox = [SendMessage 42 too_large_text ''Markdown'']\<rparr>"
    using size_ceiling_inclusive [OF pdf_member_file_message, of "Some 20971521" 20971521 empty_world]
    by (simp add: pdf_message_simps posted_def empty_world_def)
  show ?thesis
    using at over by (simp add: pdf_member_file_message pdf_message_simps)
qed

text \<open>
  Claim C2. The file-serving handler answers \<open>400\<close> when the user identifier or the
  token is missing or empty; \<open>403\<close> when both are there and the Link Store has nothing
  under \<^verbatim>\<open>user:<userId>:<token>\<close>; \<open>502\<close> when the stored record is read and the
  resolution of its \<^verbatim>\<open>fileId\<close> fails. Every response it returns is one of these three or
  the relayed upstream response.
\<close>

theorem serveFile_statuses:
  "(\<not> truthy_str userId \<or> \<not> truthy_str token \<longrightarrow>
      status_of (serveFile env w userId token) = Some 400)
 \<and> (truthy_str userId \<and> truthy_str token
      \<and> LINKS_KV_get (kv w) (link_key (show_str userId) (show_str token)) = None \<longrightarrow>
      status_of (serveFile env w userId token) = Some 403)
 \<and> (truthy_str userId \<and> truthy_str token
      \<and> LINKS_KV_get (kv w) (link_key (show_str userId) (show_str token)) = Some v \<and> v \<noteq> []
      \<and> JSON_parse env v = Inr meta \<and> getTelegramFileLink env (fileId meta) = None \<longrightarrow>
      status_of (serveFile env w userId token) = Some 502)
 \<and> (status_of (serveFile env w userId token) = Some s \<longrightarrow>
      s \<in> {400, 403, 502}
      \<or> (\<exists>v meta url up.
            LINKS_KV_get (kv w) (link_key (show_str userId) (show_str token)) = Some v
            \<and> JSON_parse env v = Inr meta \<and> getTelegramFileLink env (fileId meta) = Some url
            \<and> fetch env url = Inr up \<and> serveFile env w userId token = (Inr (relay up meta), w)))"
proof -
  have a: "\<not> truthy_str userId \<or> \<not> truthy_str token \<longrightarrow>
      status_of (serveFile env w userId token) = Some 400"
    by (auto simp: serveFile_missing status_of_def status_Response)
  have b: "truthy_str userId \<and> truthy_str token
      \<and> LINKS_KV_get (kv w) (link_key (show_str userId) (show_str token)) = None \<longrightarrow>
      status_of (serveFile env w userId token) = Some 403"
    by (auto simp: serveFile_absent status_of_def status_Response)
  have c: "truthy_str userId \<and> truthy_str token
      \<and> LINKS_KV_get (kv w) (link_key (show_str userId) (show_str token)) = Some v \<and> v \<noteq> []
      \<and> JSON_parse env v = Inr meta \<and> getTelegramFileLink env (fileId meta) = None \<longrightarrow>
      status_of (serveFile env w userId token) = Some 502"
    by (auto simp: serveFile_present status_of_def status_Response)
  have d: "status_of (serveFile env w userId token) = Some s \<longrightarrow>
      s \<in> {400, 403, 502}
      \<or> (\<exists>v meta url up.
            LINKS_KV_get (kv w) (link_key (show_str userId) (show_str token)) = Some v
            \<and> JSON_parse env v = Inr meta \<and> getTelegramFileLink env (fileId meta) = Some url
            \<and> fetch env url = Inr up \<and> serveFile env w userId token = (Inr (relay up meta), w))"
    using serveFile_cases [of env w userId token]
    by (auto simp: status_of_def status_Response)
  from a b c d show ?thesis by blast
qed

theorem serveFile_statuses_witness:
  "status_of (serveFile example_env issued_world (Some ''42'') None) = Some 400
   \<and> status_of (handleRequest example_env issued_world
        \<lparr>method = ''GET'', pathname = ''/file//9b2f'', json = Inl SyntaxError\<rparr>) = Some 400
   \<and> LINKS_KV_get (kv issued_world) (link_key ''42'' ''nope'') = None
   \<and> status_of (serveFile example_env issued_world (Some ''42'') (Some ''nope'')) = Some 403
   \<and> getTelegramFileLink example_env (Some ''old'') = None
   \<and> status_of (serveFile example_env issued_world (Some ''42'') (Some ''dead'')) = Some 502
   \<and> status_of (serveFile example_env issued_world (Some ''42'') (Some ''9b2f'')) = Some 200
   \<and> (\<exists>up meta. serveFile example_env issued_world (Some ''42'') (Some ''9b2f'')
                    = (Inr (relay up meta), issued_world))"
proof -
  note inst = serveFile_statuses [where env = example_env and w = issued_world]
  have a: "status_of (serveFile example_env issued_world (Some ''42'') None) = Some 400"
    using inst [where userId = "Some ''42''" and token = None] by simp
  have route: "handleRequest example_env issued_world
        \<lparr>method = ''GET'', pathname = ''/file//9b2f'', json = Inl SyntaxError\<rparr>
      = serveFile example_env issued_world (Some []) (Some ''9b2f'')"
    by (simp add: handleRequest_def at_def)
  have a': "status_of (serveFile example_env issued_world (Some []) (Some ''9b2f'')) = Some 400"
    using inst [where userId = "Some []" and token = "Some ''9b2f''"] by simp
  have b: "status_of (serveFile example_env issued_world (Some ''42'') (Some ''nope'')) = Some 403"
    using inst [where userId = "Some ''42''" and token = "Some ''nope''"]
    by (simp add: issued_world_def example_lookups)
  have c: "status_of (serveFile example_env issued_world (Some ''42'') (Some ''dead'')) = Some 502"
    using inst [where userId = "Some ''42''" and token = "Some ''dead''"
        and v = "JSON_stringify \<lparr>fileId = Some ''old'', fileName = Some ''old.bin'',
                        fileSize = Some 1572864\<rparr>"
        and meta = "\<lparr>fileId = Some ''old'', fileName = Some ''old.bin'', fileSize = Some 1572864\<rparr>"]
    by (simp add: issued_world_def example_lookups example_records example_config example_resolution)
  have ok: "status_of (serveFile example_env issued_world (Some ''42'') (Some ''9b2f'')) = Some 200"
    by (simp add: status_of_def serveFile_def issued_world_def example_lookups example_records
          example_config example_resolution relay_def example_upstream_def)
  have d: "\<exists>up meta. serveFile example_env issued_world (Some ''42'') (Some ''9b2f'')
                    = (Inr (relay up meta), issued_world)"
  proof -
    have "(200::nat) \<notin> {400, 403, 502}" by simp
    with inst [where userId = "Some ''42''" and token = "Some ''9b2f''" and s = 200] ok
    show ?thesis by blast
  qed
  show ?thesis
    using a a' route b c ok d by (simp add: issued_world_def example_lookups example_resolution)
qed

text \<open>
  Claim C3. When the resolution of a stored record's file fails during a serve, the
  world returned with the \<open>502\<close> no longer has the key; serving the same pair again
  answers \<open>403\<close> and changes nothing, and that answer is the one given in any world
  where the key was never stored.
\<close>

theorem serveFile_self_cleaning:
  assumes "truthy_str userId" and "truthy_str token"
    and "key = link_key (show_str userId) (show_str token)"
    and "LINKS_KV_get (kv w) key = Some v" and "v \<noteq> []"
    and "JSON_parse env v = Inr meta"
    and "getTelegramFileLink env (fileId meta) = None"
    and "w1 = snd (serveFile env w userId token)"
  shows "serveFile env w userId token
           = (Inr (Response upstream_failed_text 502), w\<lparr>kv := LINKS_KV_delete (kv w) key\<rparr>)
       \<and> LINKS_KV_get (kv w1) key = None
       \<and> serveFile env w1 userId token = (Inr (Response invalid_link_text 403), w1)
       \<and> (\<forall>w0. LINKS_KV_get (kv w0) key = None \<longrightarrow>
             fst (serveFile env w0 userId token) = fst (serveFile env w1 userId token))"
proof -
  have first: "serveFile env w userId token
           = (Inr (Response upstream_failed_text 502), w\<lparr>kv := LINKS_KV_delete (kv w) key\<rparr>)"
    using assms by (simp add: serveFile_present)
  then have gone: "LINKS_KV_get (kv w1) key = None"
    using assms(8) by (simp add: get_delete)
  have never: "serveFile env w0 userId token = (Inr (Response invalid_link_text 403), w0)"
    if "LINKS_KV_get (kv w0) key = None" for w0
    using that assms(1,2,3) by (simp add: serveFile_absent)
  from first gone never [OF gone] never show ?thesis
    by simp
qed

theorem serveFile_self_cleaning_witness:
  "LINKS_KV_get (kv issued_world) (link_key ''42'' ''dead'')
     = Some (JSON_stringify \<lparr>fileId = Some ''old'', fileName = Some ''old.bin'',
                        fileSize = Some 1572864\<rparr>)
   \<and> getTelegramFileLink example_env (Some ''old'') = None
   \<and> status_of (serveFile example_env issued_world (Some ''42'') (Some ''dead'')) = Some 502
   \<and> map fst (kv (snd (serveFile example_env issued_world (Some ''42'') (Some ''dead''))))
       = [''user:42:9b2f'', ''user:7:77aa'', ''user:42:void'']
   \<and> status_of (serveFile example_env (snd (serveFile example_env issued_world (Some ''42'') (Some ''dead'')))
        (Some ''42'') (Some ''dead'')) = Some 403
   \<and> fst (serveFile example_env (snd (serveFile example_env issued_world (Some ''42'') (Some ''dead'')))
        (Some ''42'') (Some ''dead''))
       = fst (serveFile example_env empty_world (Some ''42'') (Some ''dead''))"
proof -
  let ?v = "JSON_stringify \<lparr>fileId = Some ''old'', fileName = Some ''old.bin'',
                        fileSize = Some 1572864\<rparr>"
  let ?meta = "\<lparr>fileId = Some ''old'', fileName = Some ''old.bin'', fileSize = Some 1572864\<rparr>"
  let ?w1 = "snd (serveFile example_env issued_world (Some ''42'') (Some ''dead''))"
  have h1: "truthy_str (Some ''42'')" and h2: "truthy_str (Some ''dead'')"
    by simp_all
  have h3: "link_key ''42'' ''dead'' = link_key (show_str (Some ''42'')) (show_str (Some ''dead''))"
    by simp
  have h4: "LINKS_KV_get (kv issued_world) (link_key ''42'' ''dead'') = Some ?v"
    by (simp add: issued_world_def example_lookups)
  have h5: "?v \<noteq> []"
    by (rule example_records)
  have h6: "JSON_parse example_env ?v = Inr ?meta"
    by (simp add: example_config example_records)
  have h7: "getTelegramFileLink example_env (fileId ?meta) = None"
    by (simp add: example_resolution)
  note inst = serveFile_self_cleaning [OF h1 h2 h3 h4 h5 h6 h7 refl]
  have never: "LINKS_KV_get (kv empty_world) (link_key ''42'' ''dead'') = None"
    by (simp add: empty_world_def LINKS_KV_get_def)
  from inst have first: "serveFile example_env issued_world (Some ''42'') (Some ''dead'')
           = (Inr (Response upstream_failed_text 502),
              issued_world\<lparr>kv := LINKS_KV_delete (kv issued_world) (link_key ''42'' ''dead'')\<rparr>)"
    by blast
  from inst have again: "serveFile example_env ?w1 (Some ''42'') (Some ''dead'')
           = (Inr (Response invalid_link_text 403), ?w1)"
    by blast
  from inst never have same: "fst (serveFile example_env empty_world (Some ''42'') (Some ''dead''))
           = fst (serveFile example_env ?w1 (Some ''42'') (Some ''dead''))"
    by blast
  have s502: "status_of (serveFile example_env issued_world (Some ''42'') (Some ''dead'')) = Some 502"
    unfolding first by (simp add: status_of_def status_Response)
  have s403: "status_of (serveFile example_env ?w1 (Some ''42'') (Some ''dead'')) = Some 403"
    unfolding again by (simp add: status_of_def status_Response)
  have keys: "map fst (kv ?w1) = [''user:42:9b2f'', ''user:7:77aa'', ''user:42:void'']"
    unfolding first
    by (simp add: issued_world_def LINKS_KV_delete_def example_store_def link_key_def)
  from h4 h7 s502 keys s403 same show ?thesis
    by simp
qed

text \<open>
  Claim C4. A well-formed inbound message of a sender who fails the membership check:
  whatever the message holds, a command such as \<^verbatim>\<open>/start\<close> included, the handler does
  exactly what sending the membership instruction does, one message to the chat, and the
  Link Store is unchanged.
\<close>

theorem non_member_rejected:
  assumes "inbound req m chatId userId" and "\<not> isUserMember env userId"
  shows "handleTelegramWebhook env w req = sendTelegramMessage env w chatId (join_channel_text env)
       \<and> snd (handleTelegramWebhook env w req) = posted w chatId (join_channel_text env)
       \<and> kv (snd (handleTelegramWebhook env w req)) = kv w"
  using assms by (simp add: webhook_inbound handle_message_def snd_sendTelegramMessage posted_def)

theorem non_member_rejected_witness:
  "inbound (webhook_post (text_message 7 ''/start'')) (text_message 7 ''/start'') 7 7
   \<and> \<not> isUserMember example_env 7
   \<and> snd (handleTelegramWebhook example_env empty_world (webhook_post (text_message 7 ''/start'')))
       = \<lparr>kv = [], outbox = [SendMessage 7 (join_channel_text example_env) ''Markdown'']\<rparr>
   \<and> inbound (webhook_post (pdf_message 7 (Some 10))) (pdf_message 7 (Some 10)) 7 7
   \<and> kv (snd (handleTelegramWebhook example_env empty_world (webhook_post (pdf_message 7 (Some 10))))) = []"
proof -
  have a: "inbound (webhook_post (text_message 7 ''/start'')) (text_message 7 ''/start'') 7 7"
    by (simp add: inbound_example text_message_simps)
  have b: "inbound (webhook_post (pdf_message 7 (Some 10))) (pdf_message 7 (Some 10)) 7 7"
    by (simp add: inbound_example pdf_message_simps)
  show ?thesis
    using a b non_member_rejected [OF a example_members(2), of empty_world]
      non_member_rejected [OF b example_members(2), of empty_world]
    by (simp add: example_members snd_sendTelegramMessage posted_def empty_world_def)
qed

text \<open>
  Claim C5, as amended. File extraction takes the document if there is one, else the
  video, else the audio, else the last variant of the photo list, whatever its size. The
  name is the explicit one when the attachment has a non-empty one; without it, a video
  gets \<^verbatim>\<open>video.mp4\<close>, an audio \<^verbatim>\<open>audio.mp3\<close> and a photo \<^verbatim>\<open>photo.jpg\<close>. With none
  of the four kinds present, a message that reached extraction is answered with the
  validation error and nothing more.
\<close>

theorem extractFileInfo_preference:
  "(document m = Some d \<longrightarrow> chosen_file m = Some d)
 \<and> (document m = None \<and> video m = Some v \<longrightarrow> chosen_file m = Some v)
 \<and> (document m = None \<and> video m = None \<and> audio m = Some a \<longrightarrow> chosen_file m = Some a)
 \<and> (document m = None \<and> video m = None \<and> audio m = None \<and> photo m = Some ps \<and> ps \<noteq> [] \<longrightarrow>
      chosen_file m = Some (last ps))
 \<and> (chosen_file m = Some f \<longrightarrow>
      fileId (extractFileInfo m) = Some (file_id f) \<and> fileSize (extractFileInfo m) = file_size f)
 \<and> (chosen_file m = Some f \<and> file_name f = Some name \<and> name \<noteq> [] \<longrightarrow>
      fileName (extractFileInfo m) = Some name)
 \<and> (chosen_file m = Some f \<and> \<not> truthy_str (file_name f) \<and> document m = None \<and> video m \<noteq> None \<longrightarrow>
      fileName (extractFileInfo m) = Some ''video.mp4'')
 \<and> (chosen_file m = Some f \<and> \<not> truthy_str (file_name f) \<and> document m = None \<and> video m = None
      \<and> audio m \<noteq> None \<longrightarrow> fileName (extractFileInfo m) = Some ''audio.mp3'')
 \<and> (chosen_file m = Some f \<and> \<not> truthy_str (file_name f) \<and> document m = None \<and> video m = None
      \<and> audio m = None \<longrightarrow> fileName (extractFileInfo m) = Some ''photo.jpg'')
 \<and> (member_file_message env req m chatId userId \<and> document m = None \<and> video m = None
      \<and> audio m = None \<and> (photo m = None \<or> photo m = Some []) \<longrightarrow>
      handleTelegramWebhook env w req = sendTelegramMessage env w chatId invalid_file_text
      \<and> snd (handleTelegramWebhook env w req) = posted w chatId invalid_file_text)"
proof -
  have sel: "document m = Some d \<longrightarrow> chosen_file m = Some d"
    "document m = None \<and> video m = Some v \<longrightarrow> chosen_file m = Some v"
    "document m = None \<and> video m = None \<and> audio m = Some a \<longrightarrow> chosen_file m = Some a"
    by (simp_all add: chosen_file_def)
  have pho: "document m = None \<and> video m = None \<and> audio m = None \<and> photo m = Some ps \<and> ps \<noteq> [] \<longrightarrow>
      chosen_file m = Some (last ps)"
    using chosen_photo [of m ps] by auto
  have fld: "chosen_file m = Some f \<longrightarrow>
      fileId (extractFileInfo m) = Some (file_id f) \<and> fileSize (extractFileInfo m) = file_size f"
    by (simp add: extractFileInfo_def)
  have nam: "chosen_file m = Some f \<and> file_name f = Some name \<and> name \<noteq> [] \<longrightarrow>
      fileName (extractFileInfo m) = Some name"
    using fileName_explicit by blast
  have dfl: "chosen_file m = Some f \<and> \<not> truthy_str (file_name f) \<and> document m = None \<and> video m \<noteq> None \<longrightarrow>
      fileName (extractFileInfo m) = Some ''video.mp4''"
    "chosen_file m = Some f \<and> \<not> truthy_str (file_name f) \<and> document m = None \<and> video m = None
      \<and> audio m \<noteq> None \<longrightarrow> fileName (extractFileInfo m) = Some ''audio.mp3''"
    "chosen_file m = Some f \<and> \<not> truthy_str (file_name f) \<and> document m = None \<and> video m = None
      \<and> audio m = None \<longrightarrow> fileName (extractFileInfo m) = Some ''photo.jpg''"
    using fileName_default [of m f] by (auto simp: default_name_def)
  have non: "member_file_message env req m chatId userId \<and> document m = None \<and> video m = None
      \<and> audio m = None \<and> (photo m = None \<or> photo m = Some []) \<longrightarrow>
      handleTelegramWebhook env w req = sendTelegramMessage env w chatId invalid_file_text
      \<and> snd (handleTelegramWebhook env w req) = posted w chatId invalid_file_text"
    using no_attachment [of m]
    by (auto simp: webhook_file_message extractFileInfo_def snd_sendTelegramMessage)
  from sel pho fld nam dfl non show ?thesis by blast
qed

theorem extractFileInfo_preference_counterexample:
  \<open>photo descending_photo_message = Some [unnamed ''large'' 3000, unnamed ''small'' 100]
   \<and> file_size (unnamed ''large'' 3000) = Some 3000
   \<and> file_size (unnamed ''small'' 100) = Some 100
   \<and> chosen_file descending_photo_message = Some (unnamed ''small'' 100)
   \<and> chosen_file descending_photo_message \<noteq> Some (unnamed ''large'' 3000)
   \<and> extractFileInfo descending_photo_message
       = \<lparr>fileId = Some ''small'', fileName = Some ''photo.jpg'', fileSize = Some 100\<rparr>
   \<and> kv (snd (handleTelegramWebhook example_env empty_world (webhook_post descending_photo_message)))
       = [(''user:42:9b2f'', ''{"fileId":"small","fileName":"photo.jpg","fileSize":100}'')]\<close>
proof -
  have list: "photo descending_photo_message = Some [unnamed ''large'' 3000, unnamed ''small'' 100]"
    and rest: "document descending_photo_message = None" "video descending_photo_message = None"
      "audio descending_photo_message = None"
      "chat_id descending_photo_message = Some 42" "from_id descending_photo_message = Some 42"
      "\<not> is_command descending_photo_message"
    by (simp_all add: descending_photo_message_def message_from_def is_command_def)
  have sizes: "file_size (unnamed ''large'' 3000) = Some 3000" "file_size (unnamed ''small'' 100) = Some 100"
    by (simp_all add: unnamed_def)
  have chosen: "chosen_file descending_photo_message = Some (unnamed ''small'' 100)"
    by (simp add: chosen_photo [OF rest(1,2,3) list])
  have other: "chosen_file descending_photo_message \<noteq> Some (unnamed ''large'' 3000)"
    unfolding chosen by (simp add: unnamed_def)
  have info: "extractFileInfo descending_photo_message
       = \<lparr>fileId = Some ''small'', fileName = Some ''photo.jpg'', fileSize = Some 100\<rparr>"
    by (simp add: extractFileInfo_def chosen unnamed_def default_name_def rest)
  have mem: "member_file_message example_env (webhook_post descending_photo_message)
      descending_photo_message 42 42"
    by (simp add: member_file_message_def inbound_example rest example_members)
  have text_of: \<open>JSON_stringify \<lparr>fileId = Some ''small'', fileName = Some ''photo.jpg'', fileSize = Some 100\<rparr>
      = ''{"fileId":"small","fileName":"photo.jpg","fileSize":100}''\<close>
    by (simp add: JSON_stringify_def json_property_def json_string_def json_char_def show_simps)
  have "snd (handleTelegramWebhook example_env empty_world (webhook_post descending_photo_message))
      = snd (issue_link example_env empty_world 42 42 (extractFileInfo descending_photo_message))"
    unfolding webhook_file_message [OF mem] info by (simp add: MAX_FILE_SIZE_def)
  then have stored: \<open>kv (snd (handleTelegramWebhook example_env empty_world
                               (webhook_post descending_photo_message)))
       = [(''user:42:9b2f'', ''{"fileId":"small","fileName":"photo.jpg","fileSize":100}'')]\<close>
    by (simp add: info snd_issue_link posted_def empty_world_def link_key_def example_config
          show_simps text_of)
  from list sizes chosen other info stored show ?thesis
    by blast
qed

theorem extractFileInfo_preference_witness:
  "chosen_file mixed_message = Some (report_pdf (Some 1048576))
   \<and> fileName (extractFileInfo mixed_message) = Some ''report.pdf''
   \<and> fileSize (extractFileInfo mixed_message) = Some 1048576
   \<and> chosen_file video_message = Some (unnamed ''vid'' 5000)
   \<and> fileName (extractFileInfo video_message) = Some ''video.mp4''
   \<and> chosen_file audio_message = Some (unnamed ''aud'' 4000)
   \<and> fileName (extractFileInfo audio_message) = Some ''audio.mp3''
   \<and> chosen_file photo_message = Some (unnamed ''large'' 3000)
   \<and> fileName (extractFileInfo photo_message) = Some ''photo.jpg''
   \<and> member_file_message example_env (webhook_post (text_message 42 ''hello'')) (text_message 42 ''hello'') 42 42
   \<and> snd (handleTelegramWebhook example_env empty_world (webhook_post (text_message 42 ''hello'')))
       = \<lparr>kv = [], outbox = [SendMessage 42 invalid_file_text ''Markdown'']\<rparr>"
proof -
  have doc: "chosen_file mixed_message = Some (report_pdf (Some 1048576))"
    using extractFileInfo_preference [where m = mixed_message and d = "report_pdf (Some 1048576)"]
    by (simp add: example_messages)
  have docn: "fileName (extractFileInfo mixed_message) = Some ''report.pdf''
      \<and> fileSize (extractFileInfo mixed_message) = Some 1048576"
    using extractFileInfo_preference [where m = mixed_message and f = "report_pdf (Some 1048576)"
        and name = "''report.pdf''"] doc
    by (simp add: report_pdf_def)
  have vid: "chosen_file video_message = Some (unnamed ''vid'' 5000)"
    using extractFileInfo_preference [where m = video_message and v = "unnamed ''vid'' 5000"]
    by (simp add: example_messages)
  have vidn: "fileName (extractFileInfo video_message) = Some ''video.mp4''"
    using extractFileInfo_preference [where m = video_message and f = "unnamed ''vid'' 5000"] vid
    by (simp add: example_messages unnamed_def)
  have aud: "chosen_file audio_message = Some (unnamed ''aud'' 4000)"
    using extractFileInfo_preference [where m = audio_message and a = "unnamed ''aud'' 4000"]
    by (simp add: example_messages)
  have audn: "fileName (extractFileInfo audio_message) = Some ''audio.mp3''"
    using extractFileInfo_preference [where m = audio_message and f = "unnamed ''aud'' 4000"] aud
    by (simp add: example_messages unnamed_def)
  have pho: "chosen_file photo_message = Some (unnamed ''large'' 3000)"
    using extractFileInfo_preference [where m = photo_message
        and ps = "[unnamed ''small'' 100, unnamed ''medium'' 900, unnamed ''large'' 3000]"]
    by (simp add: example_messages)
  have phon: "fileName (extractFileInfo photo_message) = Some ''photo.jpg''"
    using extractFileInfo_preference [where m = photo_message and f = "unnamed ''large'' 3000"] pho
    by (simp add: example_messages unnamed_def)
  have mem: "member_file_message example_env (webhook_post (text_message 42 ''hello''))
      (text_message 42 ''hello'') 42 42"
    by (simp add: member_file_message_def inbound_example text_message_simps example_members
          is_command_def text_message_def message_from_def startsWith_def)
  have non: "snd (handleTelegramWebhook example_env empty_world (webhook_post (text_message 42 ''hello'')))
       = \<lparr>kv = [], outbox = [SendMessage 42 invalid_file_text ''Markdown'']\<rparr>"
    using extractFileInfo_preference [where m = "text_message 42 ''hello''" and env = example_env
        and req = "webhook_post (text_message 42 ''hello'')" and chatId = 42 and userId = 42
        and w = empty_world] mem
    by (simp add: example_messages snd_sendTelegramMessage posted_def empty_world_def)
  show ?thesis
    using doc docn vid vidn aud audn pho phon mem non by blast
qed

text \<open>
  Claim C6, as amended. With zero keys under \<^verbatim>\<open>user:<userId>:\<close> the flow sends the fixed
  notice. Otherwise it skips every listed key whose value reads back absent or empty;
  when the values of the other keys all parse, it sends the header followed by one line
  per such key, in the order listed, and when one of them is not JSON the flow throws
  and sends nothing. The line of a key \<^verbatim>\<open>user:<userId>:<token>\<close> shows the file name, the
  size and the link \<^verbatim>\<open>/file/<userId>/<token>\<close> behind the base URL; the size is the
  number of hundredths of a MiB nearest to the byte count, with two decimals.
\<close>

theorem sendUserLinks_listing:
  assumes "keys = LINKS_KV_list (kv w) (''user:'' @ show_int userId @ '':'')"
    and "present = filter (\<lambda>k. truthy_str (LINKS_KV_get (kv w) k)) keys"
  shows "(keys = [] \<longrightarrow>
           sendUserLinks env w chatId userId = sendTelegramMessage env w chatId no_links_text)
       \<and> (keys \<noteq> []
           \<and> list_all2 (\<lambda>k meta. JSON_parse env (the (LINKS_KV_get (kv w) k)) = Inr meta) present metas \<longrightarrow>
           sendUserLinks env w chatId userId =
             sendTelegramMessage env w chatId
               (links_header @ concat (map2 (link_line env userId) present metas)))
       \<and> (k \<in> set present \<and> JSON_parse env (the (LINKS_KV_get (kv w) k)) = Inl e \<longrightarrow>
           (\<exists>e'. sendUserLinks env w chatId userId = (Inl e', w)))
       \<and> (CHR '':'' \<notin> set token \<longrightarrow>
           link_line env userId (link_key (show_int userId) token) meta =
             BULLET @ '' '' @ show_str (fileName meta) @ '' ('' @ sizeMB (fileSize meta) @ '' MB)''
               @ NL @ BQ @ WORKER_DOMAIN env @ ''/file/'' @ show_int userId @ ''/'' @ token @ BQ
               @ NL @ NL)
       \<and> (\<exists>q. sizeMB (Some (int n)) =
                 show_nat (q div 100) @ ''.'' @ [digit (q mod 100 div 10), digit (q mod 10)]
              \<and> 200 * n < (2 * q + 1) * 1048576 \<and> 2 * q * 1048576 \<le> 200 * n + 1048576)"
proof -
  have none: "keys = [] \<longrightarrow>
      sendUserLinks env w chatId userId = sendTelegramMessage env w chatId no_links_text"
    using assms(1) by (simp add: sendUserLinks_def)
  have some: "keys \<noteq> []
      \<and> list_all2 (\<lambda>k meta. JSON_parse env (the (LINKS_KV_get (kv w) k)) = Inr meta) present metas \<longrightarrow>
      sendUserLinks env w chatId userId =
        sendTelegramMessage env w chatId
          (links_header @ concat (map2 (link_line env userId) present metas))"
    using assms links_loop_lines [of env "kv w" keys metas userId links_header]
    by (auto simp: sendUserLinks_def Let_def)
  have bad: "k \<in> set present \<and> JSON_parse env (the (LINKS_KV_get (kv w) k)) = Inl e \<longrightarrow>
      (\<exists>e'. sendUserLinks env w chatId userId = (Inl e', w))"
  proof
    assume k: "k \<in> set present \<and> JSON_parse env (the (LINKS_KV_get (kv w) k)) = Inl e"
    then have "k \<in> set keys" "truthy_str (LINKS_KV_get (kv w) k)"
      using assms(2) by auto
    from links_loop_throws [OF this, of env e userId links_header] k
    obtain e' where "links_loop env (kv w) userId keys links_header = Inl e'"
      by blast
    moreover have "keys \<noteq> []"
      using \<open>k \<in> set keys\<close> by auto
    ultimately show "\<exists>e'. sendUserLinks env w chatId userId = (Inl e', w)"
      using assms(1) by (auto simp: sendUserLinks_def Let_def)
  qed
  have line: "CHR '':'' \<notin> set token \<longrightarrow>
      link_line env userId (link_key (show_int userId) token) meta =
        BULLET @ '' '' @ show_str (fileName meta) @ '' ('' @ sizeMB (fileSize meta) @ '' MB)''
          @ NL @ BQ @ WORKER_DOMAIN env @ ''/file/'' @ show_int userId @ ''/'' @ token @ BQ
          @ NL @ NL"
    using link_line_issued by blast
  from none some bad line sizeMB_rounds [of n] show ?thesis
    by blast
qed

theorem sendUserLinks_listing_counterexample:
  "LINKS_KV_list (kv junk_world) (''user:'' @ show_int 42 @ '':'') = [''user:42:junk'']
   \<and> LINKS_KV_get (kv junk_world) ''user:42:junk'' = Some ''not json''
   \<and> JSON_parse example_env ''not json'' = Inl SyntaxError
   \<and> sendUserLinks example_env junk_world 42 42 = (Inl SyntaxError, junk_world)
   \<and> outbox (snd (sendUserLinks example_env junk_world 42 42)) = []
   \<and> sendUserLinks example_env junk_world 42 42
       \<noteq> sendTelegramMessage example_env junk_world 42 links_header
   \<and> handleTelegramWebhook example_env junk_world (webhook_post (text_message 42 ''/links''))
       = (Inl SyntaxError, junk_world)"
proof -
  have keys: "LINKS_KV_list (kv junk_world) (''user:'' @ show_int 42 @ '':'') = [''user:42:junk'']"
    by (simp add: junk_world_def show_simps example_listing)
  have val: "LINKS_KV_get (kv junk_world) ''user:42:junk'' = Some ''not json''"
    by (simp add: junk_world_def LINKS_KV_get_def)
  have bad: "JSON_parse example_env ''not json'' = Inl SyntaxError"
    by (simp add: example_config example_records)
  have run: "sendUserLinks example_env junk_world 42 42 = (Inl SyntaxError, junk_world)"
    unfolding sendUserLinks_def keys by (simp add: val bad)
  have "fst (sendTelegramMessage example_env junk_world 42 links_header) = Inr (Response ''OK'' 200)"
    by (simp add: sendTelegramMessage_def example_env_def)
  then have differ: "sendUserLinks example_env junk_world 42 42
       \<noteq> sendTelegramMessage example_env junk_world 42 links_header"
    unfolding run by (metis fst_conv sum.distinct(1))
  have "inbound (webhook_post (text_message 42 ''/links'')) (text_message 42 ''/links'') 42 42"
    by (simp add: inbound_example text_message_simps)
  then have "handleTelegramWebhook example_env junk_world (webhook_post (text_message 42 ''/links''))
       = handle_message example_env junk_world (text_message 42 ''/links'') 42 42"
    by (rule webhook_inbound)
  also have "\<dots> = sendUserLinks example_env junk_world 42 42"
    by (simp add: handle_message_def example_members text_message_def message_from_def
          startsWith_def)
  finally have hook: "handleTelegramWebhook example_env junk_world (webhook_post (text_message 42 ''/links''))
       = (Inl SyntaxError, junk_world)"
    using run by simp
  from keys val bad run differ hook show ?thesis
    by (simp add: junk_world_def)
qed

theorem sendUserLinks_listing_witness:
  "LINKS_KV_list (kv issued_world) (''user:'' @ show_int 42 @ '':'')
     = [''user:42:9b2f'', ''user:42:void'', ''user:42:dead'']
   \<and> LINKS_KV_get (kv issued_world) ''user:42:void'' = Some []
   \<and> snd (sendUserLinks example_env issued_world 42 42)
       = \<lparr>kv = example_store,
          outbox = [SendMessage 42
                      (links_header
                         @ BULLET @ '' annual report.pdf (1.00 MB)'' @ NL
                         @ BQ @ ''https://w.dev/file/42/9b2f'' @ BQ @ NL @ NL
                         @ BULLET @ '' old.bin (1.50 MB)'' @ NL
                         @ BQ @ ''https://w.dev/file/42/dead'' @ BQ @ NL @ NL)
                      ''Markdown'']\<rparr>
   \<and> LINKS_KV_list (kv issued_world) (''user:'' @ show_int 5 @ '':'') = []
   \<and> snd (sendUserLinks example_env issued_world 5 5)
       = \<lparr>kv = example_store, outbox = [SendMessage 5 no_links_text ''Markdown'']\<rparr>
   \<and> (\<exists>e. sendUserLinks example_env junk_world 42 42 = (Inl e, junk_world))"
proof -
  let ?m1 = "\<lparr>fileId = Some ''abc'', fileName = Some ''annual report.pdf'', fileSize = Some 1048576\<rparr>"
  let ?m2 = "\<lparr>fileId = Some ''old'', fileName = Some ''old.bin'', fileSize = Some 1572864\<rparr>"
  have keys: "LINKS_KV_list (kv issued_world) (''user:'' @ show_int 42 @ '':'')
     = [''user:42:9b2f'', ''user:42:void'', ''user:42:dead'']"
    by (simp add: issued_world_def show_simps example_listing)
  have vals: "LINKS_KV_get (kv issued_world) ''user:42:9b2f'' = Some (JSON_stringify ?m1)"
    "LINKS_KV_get (kv issued_world) ''user:42:void'' = Some []"
    "LINKS_KV_get (kv issued_world) ''user:42:dead'' = Some (JSON_stringify ?m2)"
    using example_lookups by (simp_all add: issued_world_def link_key_def)
  have present: "filter (\<lambda>k. truthy_str (LINKS_KV_get (kv issued_world) k))
                   [''user:42:9b2f'', ''user:42:void'', ''user:42:dead'']
                 = [''user:42:9b2f'', ''user:42:dead'']"
    by (simp add: vals example_records)
  have parsed: "list_all2 (\<lambda>k meta. JSON_parse example_env (the (LINKS_KV_get (kv issued_world) k)) = Inr meta)
                  [''user:42:9b2f'', ''user:42:dead''] [?m1, ?m2]"
    by (simp add: vals example_records example_config)
  note listing = sendUserLinks_listing [OF keys [symmetric] present [symmetric],
      where env = example_env and chatId = 42 and metas = "[?m1, ?m2]"]
  from listing parsed
  have "sendUserLinks example_env issued_world 42 42
          = sendTelegramMessage example_env issued_world 42
              (links_header @ concat (map2 (link_line example_env 42)
                                        [''user:42:9b2f'', ''user:42:dead''] [?m1, ?m2]))"
    by blast
  then have full: "snd (sendUserLinks example_env issued_world 42 42)
       = \<lparr>kv = example_store,
          outbox = [SendMessage 42
                      (links_header
                         @ BULLET @ '' annual report.pdf (1.00 MB)'' @ NL
                         @ BQ @ ''https://w.dev/file/42/9b2f'' @ BQ @ NL @ NL
                         @ BULLET @ '' old.bin (1.50 MB)'' @ NL
                         @ BQ @ ''https://w.dev/file/42/dead'' @ BQ @ NL @ NL)
                      ''Markdown'']\<rparr>"
    by (simp add: snd_sendTelegramMessage posted_def issued_world_def example_lines)
  have nokeys: "LINKS_KV_list (kv issued_world) (''user:'' @ show_int 5 @ '':'') = []"
    by (simp add: issued_world_def show_simps example_listing)
  from sendUserLinks_listing [OF nokeys [symmetric] refl, where env = example_env and chatId = 5]
  have "sendUserLinks example_env issued_world 5 5
          = sendTelegramMessage example_env issued_world 5 no_links_text"
    by blast
  then have empty: "snd (sendUserLinks example_env issued_world 5 5)
       = \<lparr>kv = example_store, outbox = [SendMessage 5 no_links_text ''Markdown'']\<rparr>"
    by (simp add: snd_sendTelegramMessage posted_def issued_world_def)
  have jkeys: "LINKS_KV_list (kv junk_world) (''user:'' @ show_int 42 @ '':'') = [''user:42:junk'']"
    by (simp add: junk_world_def show_simps example_listing)
  have jval: "LINKS_KV_get (kv junk_world) ''user:42:junk'' = Some ''not json''"
    by (simp add: junk_world_def LINKS_KV_get_def)
  have jin: "''user:42:junk'' \<in> set (filter (\<lambda>k. truthy_str (LINKS_KV_get (kv junk_world) k)) [''user:42:junk''])"
    by (simp add: jval)
  have jbad: "JSON_parse example_env (the (LINKS_KV_get (kv junk_world) ''user:42:junk'')) = Inl SyntaxError"
    by (simp add: jval example_config example_records)
  from sendUserLinks_listing [OF jkeys [symmetric] refl, where env = example_env and chatId = 42
      and k = "''user:42:junk''" and e = SyntaxError] jin jbad
  have throws: "\<exists>e. sendUserLinks example_env junk_world 42 42 = (Inl e, junk_world)"
    by blast
  from keys vals(2) full nokeys empty throws show ?thesis
    by blast
qed

text \<open>
  Claim C7. The membership checker returns true exactly when the call answered with a
  JSON reply that reports success and carries a result whose status is \<^verbatim>\<open>member\<close>,
  \<^verbatim>\<open>creator\<close> or \<^verbatim>\<open>administrator\<close>. It returns a plain boolean: when the fetch
  rejects or the body is not JSON, and when a reply that reports success has no result,
  the \<^verbatim>\<open>try\<close> block throws, and whatever it throws the boolean is false.
\<close>

theorem isUserMember_fail_closed:
  "(isUserMember env userId \<longleftrightarrow>
      (\<exists>data r. fetch_getChatMember env (getChatMember_url env userId) = Inr data
         \<and> ok data \<and> result data = Some r
         \<and> member_status r \<in> {''member'', ''creator'', ''administrator''}))
   \<and> (fetch_getChatMember env (getChatMember_url env userId) = Inl e \<longrightarrow>
        isUserMember_try env userId = Inl e \<and> isUserMember env userId = False)
   \<and> (fetch_getChatMember env (getChatMember_url env userId) = Inr data \<and> ok data
        \<and> result data = None \<longrightarrow>
        isUserMember_try env userId = Inl TypeError \<and> isUserMember env userId = False)
   \<and> (\<forall>e'. isUserMember_try env userId = Inl e' \<longrightarrow> isUserMember env userId = False)"
proof -
  let ?reply = "fetch_getChatMember env (getChatMember_url env userId)"
  have caught: "isUserMember env userId = False" if "isUserMember_try env userId = Inl e'" for e'
    using that by (simp add: isUserMember_def)
  have net: "isUserMember_try env userId = Inl e" if "?reply = Inl e"
    using that by (simp add: isUserMember_try_def)
  have missing: "isUserMember_try env userId = Inl TypeError"
    if "?reply = Inr data" "ok data" "result data = None"
    using that by (simp add: isUserMember_try_def)
  have exact: "isUserMember env userId \<longleftrightarrow>
      (\<exists>data r. ?reply = Inr data \<and> ok data \<and> result data = Some r
         \<and> member_status r \<in> {''member'', ''creator'', ''administrator''})"
  proof (cases ?reply)
    case (Inl e0)
    then show ?thesis
      by (simp add: isUserMember_def isUserMember_try_def)
  next
    case (Inr d)
    then show ?thesis
      by (cases "result d") (auto simp: isUserMember_def isUserMember_try_def)
  qed
  from exact net missing caught show ?thesis
    by blast
qed

theorem isUserMember_fail_closed_witness:
  "isUserMember example_env 42
   \<and> \<not> isUserMember example_env 7
   \<and> fetch_getChatMember example_env (getChatMember_url example_env 5) = Inl NetworkError
   \<and> isUserMember_try example_env 5 = Inl NetworkError \<and> isUserMember example_env 5 = False
   \<and> fetch_getChatMember example_env (getChatMember_url example_env 9)
       = Inr \<lparr>ok = True, result = None\<rparr>
   \<and> isUserMember_try example_env 9 = Inl TypeError \<and> isUserMember example_env 9 = False"
proof -
  have url: "getChatMember_url example_env 42
               = ''https://api.telegram.org/bot1:S/getChatMember?chat_id=-100&user_id=42''"
    "getChatMember_url example_env 7
               = ''https://api.telegram.org/bot1:S/getChatMember?chat_id=-100&user_id=7''"
    "getChatMember_url example_env 5
               = ''https://api.telegram.org/bot1:S/getChatMember?chat_id=-100&user_id=5''"
    "getChatMember_url example_env 9
               = ''https://api.telegram.org/bot1:S/getChatMember?chat_id=-100&user_id=9''"
    by (simp_all add: getChatMember_url_def TELEGRAM_API_URL_def example_config show_simps)
  have "fetch_getChatMember example_env (getChatMember_url example_env 42)
          = Inr \<lparr>ok = True, result = Some \<lparr>member_status = ''member''\<rparr>\<rparr>"
    unfolding url by (simp add: example_env_def)
  then have yes: "isUserMember example_env 42"
    using isUserMember_fail_closed [of example_env 42] by simp
  have "fetch_getChatMember example_env (getChatMember_url example_env 7)
          = Inr \<lparr>ok = True, result = Some \<lparr>member_status = ''left''\<rparr>\<rparr>"
    unfolding url by (simp add: example_env_def)
  then have no: "\<not> isUserMember example_env 7"
    using isUserMember_fail_closed [of example_env 7] by auto
  have down: "fetch_getChatMember example_env (getChatMember_url example_env 5) = Inl NetworkError"
    unfolding url by (simp add: example_env_def)
  with isUserMember_fail_closed [of example_env 5 NetworkError]
  have closed: "isUserMember_try example_env 5 = Inl NetworkError \<and> isUserMember example_env 5 = False"
    by blast
  have bare: "fetch_getChatMember example_env (getChatMember_url example_env 9)
       = Inr \<lparr>ok = True, result = None\<rparr>"
    unfolding url by (simp add: example_env_def)
  with isUserMember_fail_closed [of example_env 9 _ "\<lparr>ok = True, result = None\<rparr>"]
  have thrown: "isUserMember_try example_env 9 = Inl TypeError \<and> isUserMember example_env 9 = False"
    by simp
  from yes no down closed bare thrown show ?thesis
    by blast
qed



text \<open>
  Claim C9. An accepted file message of a member: the store afterwards is the old one
  with the text of \<^verbatim>\<open>{fileId, fileName, fileSize}\<close>, as extracted, put under
  \<^verbatim>\<open>user:<userId>:<token>\<close> for the token drawn for this request; reading that key gives
  the text back, and the text decodes to the extracted object; and the one message posted
  contains the base URL followed by \<^verbatim>\<open>/file/<userId>/<token>\<close> with the same token.
\<close>

theorem link_record_stored:
  assumes "member_file_message env req m chatId userId"
    and "truthy_str (fileId (extractFileInfo m))"
    and "truthy_str (fileName (extractFileInfo m))"
    and "\<not> exceeds (fileSize (extractFileInfo m)) MAX_FILE_SIZE"
    and "key = ''user:'' @ show_int userId @ '':'' @ randomUUID env"
    and "link = WORKER_DOMAIN env @ ''/file/'' @ show_int userId @ ''/'' @ randomUUID env"
    and "w' = snd (handleTelegramWebhook env w req)"
  shows "kv w' = LINKS_KV_put (kv w) key
                   (JSON_stringify \<lparr>fileId = fileId (extractFileInfo m),
                                    fileName = fileName (extractFileInfo m),
                                    fileSize = fileSize (extractFileInfo m)\<rparr>)
       \<and> LINKS_KV_get (kv w') key = Some (JSON_stringify (extractFileInfo m))
       \<and> JSON_parse_record (JSON_stringify (extractFileInfo m)) = Inr (extractFileInfo m)
       \<and> (\<exists>txt a b. outbox w' = outbox w @ [SendMessage chatId txt ''Markdown'']
                    \<and> txt = a @ link @ b)"
proof -
  have w': "w' = posted (w\<lparr>kv := LINKS_KV_put (kv w) key (JSON_stringify (extractFileInfo m))\<rparr>)
                   chatId (link_ready_text link)"
    using assms by (simp add: webhook_file_message Let_def snd_issue_link link_key_def file_link_def)
  have eta: "\<lparr>fileId = fileId (extractFileInfo m), fileName = fileName (extractFileInfo m),
               fileSize = fileSize (extractFileInfo m)\<rparr> = extractFileInfo m"
    by simp
  have shape: "link_ready_text link =
          (CHECK_MARK @ '' Your download link is ready:'' @ NL @ BQ) @ link
            @ (BQ @ NL @ NL @ WARNING
                 @ '' This is a direct link from Telegram and may expire after a while.'')"
    by (simp add: link_ready_text_def)
  have out: "outbox w' = outbox w @ [SendMessage chatId (link_ready_text link) ''Markdown'']"
    unfolding w' by (simp add: posted_def)
  have "\<exists>txt a b. outbox w' = outbox w @ [SendMessage chatId txt ''Markdown''] \<and> txt = a @ link @ b"
    using out shape by blast
  moreover have "kv w' = LINKS_KV_put (kv w) key (JSON_stringify (extractFileInfo m))"
    unfolding w' by (simp add: posted_def)
  ultimately show ?thesis
    unfolding eta by (simp add: get_put JSON_parse_record_stringify)
qed

theorem link_record_stored_witness:
  \<open>member_file_message example_env (webhook_post (pdf_message 42 (Some 1048576)))
     (pdf_message 42 (Some 1048576)) 42 42
   \<and> extractFileInfo (pdf_message 42 (Some 1048576))
       = \<lparr>fileId = Some ''abc'', fileName = Some ''report.pdf'', fileSize = Some 1048576\<rparr>
   \<and> \<not> exceeds (Some 1048576) MAX_FILE_SIZE
   \<and> kv (snd (handleTelegramWebhook example_env empty_world (webhook_post (pdf_message 42 (Some 1048576)))))
       = [(''user:42:9b2f'', ''{"fileId":"abc","fileName":"report.pdf","fileSize":1048576}'')]
   \<and> (\<exists>txt a b. outbox (snd (handleTelegramWebhook example_env empty_world
                                 (webhook_post (pdf_message 42 (Some 1048576)))))
                    = [SendMessage 42 txt ''Markdown'']
                  \<and> txt = a @ ''https://w.dev/file/42/9b2f'' @ b)\<close>
proof -
  have no: "\<not> exceeds (Some 1048576) MAX_FILE_SIZE"
    by (simp add: MAX_FILE_SIZE_def)
  have js: \<open>JSON_stringify \<lparr>fileId = Some ''abc'', fileName = Some ''report.pdf'', fileSize = Some 1048576\<rparr>
      = ''{"fileId":"abc","fileName":"report.pdf","fileSize":1048576}''\<close>
    by (simp add: JSON_stringify_def json_property_def json_string_def json_char_def show_simps)
  show ?thesis
    using link_record_stored [OF pdf_member_file_message, of "Some 1048576" _ _ _ empty_world,
        OF _ _ _ refl refl refl] no
    by (simp add: pdf_member_file_message pdf_message_simps js example_config show_simps
          empty_world_def)
qed

text \<open>
  Claim C10. When the chosen attachment reports no \<^verbatim>\<open>file_size\<close>, the size test does not
  reject it: the message passes the ceiling, and the Link Record written has the
  members \<^verbatim>\<open>fileId\<close> and \<^verbatim>\<open>fileName\<close> only.
\<close>

theorem missing_size_accepted:
  assumes "member_file_message env req m chatId userId"
    and "chosen_file m = Some f" and "file_id f \<noteq> []" and "file_size f = None"
  shows "\<not> exceeds (fileSize (extractFileInfo m)) MAX_FILE_SIZE
       \<and> (\<exists>name. fileName (extractFileInfo m) = Some name
            \<and> extractFileInfo m = \<lparr>fileId = Some (file_id f), fileName = Some name, fileSize = None\<rparr>
            \<and> kv (snd (handleTelegramWebhook env w req)) =
                LINKS_KV_put (kv w) (link_key (show_int userId) (randomUUID env))
                  (''{'' @ json_string ''fileId'' @ '':'' @ json_string (file_id f) @ '',''
                     @ json_string ''fileName'' @ '':'' @ json_string name @ ''}''))"
proof -
  obtain name where name: "fileName (extractFileInfo m) = Some name" "name \<noteq> []"
    using fileName_truthy [OF assms(2)] by (cases "fileName (extractFileInfo m)") auto
  have info: "extractFileInfo m = \<lparr>fileId = Some (file_id f), fileName = Some name, fileSize = None\<rparr>"
    using assms(2,4) name by (simp add: extractFileInfo_def)
  have js: "JSON_stringify (extractFileInfo m) =
          ''{'' @ json_string ''fileId'' @ '':'' @ json_string (file_id f) @ '',''
             @ json_string ''fileName'' @ '':'' @ json_string name @ ''}''"
    unfolding info by (simp add: JSON_stringify_def json_property_def)
  have "snd (handleTelegramWebhook env w req) = snd (issue_link env w chatId userId (extractFileInfo m))"
    using assms(1,3) unfolding webhook_file_message [OF assms(1)] info by (simp add: name)
  then show ?thesis
    using name js by (simp add: info snd_issue_link posted_def)
qed

theorem missing_size_accepted_witness:
  \<open>member_file_message example_env (webhook_post (pdf_message 42 None)) (pdf_message 42 None) 42 42
   \<and> chosen_file (pdf_message 42 None) = Some (report_pdf None)
   \<and> file_size (report_pdf None) = None
   \<and> \<not> exceeds (fileSize (extractFileInfo (pdf_message 42 None))) MAX_FILE_SIZE
   \<and> kv (snd (handleTelegramWebhook example_env empty_world (webhook_post (pdf_message 42 None))))
       = [(''user:42:9b2f'', ''{"fileId":"abc","fileName":"report.pdf"}'')]\<close>
proof -
  have ch: "chosen_file (pdf_message 42 None) = Some (report_pdf None)"
    by (simp add: chosen_file_def pdf_message_def message_from_def)
  have f: "file_id (report_pdf None) \<noteq> []" "file_size (report_pdf None) = None"
    by (simp_all add: report_pdf_def)
  show ?thesis
    using missing_size_accepted [OF pdf_member_file_message ch f, of empty_world] ch f
    by (simp add: pdf_member_file_message pdf_message_simps empty_world_def link_key_def
          example_config show_simps json_string_def json_char_def report_pdf_def)
qed

end
